theory Spec2Isabelle
  imports Main
begin

section \<open>Data model of the Ludo room server (server.js)\<close>

text \<open>
  JavaScript numbers that the server only adds, subtracts and compares (coins, bets,
  dice faces, token values) are \<open>int\<close>; array positions, timestamps and timer delays are
  \<open>nat\<close>. \<open>Date.now()\<close> and \<open>uuidv4()\<close> are inputs of the handlers that call them.
\<close>

datatype game_status = GS_WAITING | GS_PLAYING | GS_FINISHED

datatype player_status = PLAYING | WIN | LEFT | TIMEOUT

definition MAX_PLAYERS :: nat where
  "MAX_PLAYERS = 4"

definition TURN_TIMEOUT :: nat where
  "TURN_TIMEOUT = 30000"

record player =
  userId :: string
  userName :: string
  peerId :: nat
  socketId :: string
  status :: player_status
  numoftimeout :: nat
  joinedAt :: nat

record move =
  m_peerId :: nat
  m_tokenId :: int
  m_tokenValue :: int
  m_timestamp :: nat

record game_data =
  lastDice :: int
  moves :: "move list"

text \<open>\<open>turnTimer\<close> holds the handle of \<open>setTimeout\<close> (\<open>None\<close> is \<open>null\<close>).\<close>

record room =
  roomId :: string
  hostUserId :: string
  betAmount :: int
  maxPlayers :: int
  roomStatus :: game_status
  players :: "player list"
  currentTurn :: nat
  turnTimer :: "nat option"
  gameData :: game_data
  createdAt :: nat

record user =
  u_userId :: string
  u_userName :: string
  fcmToken :: string
  coins :: int
  level :: int
  winCount :: int
  lostCount :: int
  totalGamesPlayed :: int
  u_createdAt :: nat
  lastUpdate :: "nat option"

text \<open>One element of the array returned by \<open>calculateGameResults\<close>.\<close>

record result =
  user_name :: string
  user_id :: string
  winning_coin :: int
  player_rank :: nat
  player_status :: player_status

subsection \<open>Helper functions\<close>

definition createRoom :: "string \<Rightarrow> string \<Rightarrow> int \<Rightarrow> int \<Rightarrow> nat \<Rightarrow> room" where
  "createRoom rid host bet playerCount now =
     \<lparr>roomId = rid, hostUserId = host, betAmount = bet, maxPlayers = playerCount,
      roomStatus = GS_WAITING, players = [], currentTurn = 0, turnTimer = None,
      gameData = \<lparr>lastDice = 0, moves = []\<rparr>, createdAt = now\<rparr>"

definition createPlayer :: "string \<Rightarrow> string \<Rightarrow> nat \<Rightarrow> string \<Rightarrow> nat \<Rightarrow> player" where
  "createPlayer uid uname peer sid now =
     \<lparr>userId = uid, userName = uname, peerId = peer, socketId = sid,
      status = PLAYING, numoftimeout = 0, joinedAt = now\<rparr>"

text \<open>
  \<open>Array.prototype.find\<close> returns the first matching element; the handlers then assign
  to a field of that element, so the model needs its position.
\<close>

fun findIndex :: "('a \<Rightarrow> bool) \<Rightarrow> 'a list \<Rightarrow> nat option" where
  "findIndex P [] = None"
| "findIndex P (x # xs) = (if P x then Some 0 else map_option Suc (findIndex P xs))"

definition playingCount :: "player list \<Rightarrow> nat" where
  "playingCount ps = length (filter (\<lambda>p. status p = PLAYING) ps)"

subsection \<open>getNextTurn\<close>

text \<open>
  The \<open>while (attempts < room.players.length)\<close> loop. The source returns \<open>-1\<close> for
  "no active player"; the model returns \<open>None\<close>.
\<close>

function getNextTurn_loop :: "player list \<Rightarrow> nat \<Rightarrow> nat \<Rightarrow> nat option" where
  "getNextTurn_loop ps nextIndex attempts =
     (if attempts < length ps then
        (if nextIndex < length ps \<and> status (ps ! nextIndex) = PLAYING then Some nextIndex
         else getNextTurn_loop ps ((nextIndex + 1) mod length ps) (attempts + 1))
      else None)"
  by pat_completeness auto
termination
  by (relation "measure (\<lambda>(ps, nextIndex, attempts). length ps - attempts)") auto

declare getNextTurn_loop.simps [simp del]

definition getNextTurn :: "room \<Rightarrow> nat option" where
  "getNextTurn r =
     (let activePlayers = filter (\<lambda>p. status p = PLAYING \<or> status p = WIN) (players r)
      in if length activePlayers = 0 then None
         else getNextTurn_loop (players r) ((currentTurn r + 1) mod length (players r)) 0)"

subsection \<open>calculateGameResults\<close>

text \<open>
  \<open>[...room.players].sort(cmp)\<close>: the sort of the language is stable, and the comparator
  is consistent, so the outcome is the one of a stable insertion sort.
\<close>

definition cmpStatus :: "player \<Rightarrow> player \<Rightarrow> int" where
  "cmpStatus a b =
     (if status a = WIN \<and> status b \<noteq> WIN then - 1
      else if status a \<noteq> WIN \<and> status b = WIN then 1
      else 0)"

fun insertBy :: "('a \<Rightarrow> 'a \<Rightarrow> int) \<Rightarrow> 'a \<Rightarrow> 'a list \<Rightarrow> 'a list" where
  "insertBy cmp x [] = [x]"
| "insertBy cmp x (y # ys) = (if cmp x y \<le> 0 then x # y # ys else y # insertBy cmp x ys)"

fun sortBy :: "('a \<Rightarrow> 'a \<Rightarrow> int) \<Rightarrow> 'a list \<Rightarrow> 'a list" where
  "sortBy cmp [] = []"
| "sortBy cmp (x # xs) = insertBy cmp x (sortBy cmp xs)"

definition resultOf :: "int \<Rightarrow> int \<Rightarrow> nat \<Rightarrow> player \<Rightarrow> result" where
  "resultOf bet playerCount index p =
     (let rank = index + 1;
          coin = (if status p = WIN then
                    (if playerCount = 2 then bet * 2
                     else if playerCount = 4 then
                       (if rank = 1 then bet * 3 else if rank = 2 then bet else 0)
                     else 0)
                  else 0)
      in \<lparr>user_name = userName p, user_id = userId p, winning_coin = coin,
          player_rank = rank, player_status = status p\<rparr>)"

definition calculateGameResults :: "room \<Rightarrow> result list" where
  "calculateGameResults r =
     (let sortedPlayers = sortBy cmpStatus (players r)
      in map (\<lambda>(index, p). resultOf (betAmount r) (maxPlayers r) index p)
             (enumerate 0 sortedPlayers))"

section \<open>Server state\<close>

text \<open>
  What a handler sends: \<open>socket.emit\<close> goes to one socket, \<open>io.to(room).emit\<close> to the
  broadcast group of the room, \<open>socket.to(room).emit\<close> to that group without the sender.
\<close>

datatype dest = ToSocket string | ToRoom string | ToRoomExcept string string

text \<open>
  The payloads, one constructor per shape that the handlers serialise. \<open>PGameStart\<close>
  carries \<open>room_id\<close>, \<open>room_coin\<close> and per player \<open>peer_id, user_id, user_name, user_coin,
  numof_win, numof_lose, user_level, login_type\<close>; \<open>PRoomData\<close> carries \<open>room_id, peer_id,
  turn_id\<close>, per player \<open>peer_id, user_id, user_name, status\<close>, and \<open>game_data\<close>.
\<close>

datatype payload =
    PPeer nat
  | PTimeoutCounter nat nat
  | PDice nat int
  | PToken nat int int int
  | PResults "result list"
  | PInsufficient int int
  | PMessage string
  | PRoomCode string
  | PPlayerJoined nat string nat int
  | PGameStart string int "(nat \<times> string \<times> string \<times> int \<times> int \<times> int \<times> int \<times> string) list"
  | PRoomData string nat nat "(nat \<times> string \<times> string \<times> player_status) list" game_data

type_synonym emission = "dest \<times> string \<times> payload"

text \<open>
  The callbacks handed to \<open>setTimeout\<close>. A callback that closes over a room object
  carries the object's address; \<open>DisconnectGrace\<close> carries the socket id and the values
  \<open>room.roomId\<close>, \<open>player.userId\<close>, \<open>player.peerId\<close> read from the objects it closes over
  (none of these fields is ever assigned after creation).
\<close>

datatype callback =
    TurnTimeout nat
  | DelayedSettle nat
  | RoomCleanup string
  | DisconnectGrace string string string nat

record timer =
  t_id :: nat
  delay :: nat
  cb :: callback

record socket =
  s_userId :: "string option"
  currentRoomId :: "string option"
  joinedRooms :: "string set"

text \<open>
  \<open>rooms\<close> is the \<open>Map\<close> from room id to room object, as the list of its entries in
  iteration (insertion) order; room objects live in \<open>heap\<close>, since timer callbacks keep
  a room object after the registry has dropped or replaced it. \<open>users\<close> is the in-memory
  \<open>Map\<close>, \<open>redisUsers\<close> and \<open>leaderboard\<close> are the keys \<open>user:*\<close> and the sorted set of the
  Redis client, \<open>redisConnected\<close> is \<open>isRedisConnected()\<close>. A handler runs as one step:
  the interleavings at its \<open>await\<close> points and Redis failures are outside the model.
\<close>

record server =
  users :: "string \<rightharpoonup> user"
  redisUsers :: "string \<rightharpoonup> user"
  redisConnected :: bool
  leaderboard :: "string \<rightharpoonup> int"
  rooms :: "(string \<times> nat) list"
  heap :: "nat \<Rightarrow> room"
  nextAddr :: nat
  userSockets :: "string \<rightharpoonup> string"
  sockets :: "string \<Rightarrow> socket"
  pending :: "timer list"
  nextTimer :: nat
  outbox :: "emission list"

subsection \<open>Map, timer and transport primitives\<close>

text \<open>\<open>Map.prototype.set\<close>: an existing key keeps its position, a new key goes last.\<close>

fun rooms_set :: "string \<Rightarrow> nat \<Rightarrow> (string \<times> nat) list \<Rightarrow> (string \<times> nat) list" where
  "rooms_set k a [] = [(k, a)]"
| "rooms_set k a ((k', a') # es) =
     (if k' = k then (k, a) # es else (k', a') # rooms_set k a es)"

definition rooms_delete :: "string \<Rightarrow> (string \<times> nat) list \<Rightarrow> (string \<times> nat) list" where
  "rooms_delete k es = filter (\<lambda>(k', a). k' \<noteq> k) es"

definition rooms_get :: "server \<Rightarrow> string \<Rightarrow> nat option" where
  "rooms_get st k = map_of (rooms st) k"

definition emit :: "dest \<Rightarrow> string \<Rightarrow> payload \<Rightarrow> server \<Rightarrow> server" where
  "emit d ev p st = st\<lparr>outbox := outbox st @ [(d, ev, p)]\<rparr>"

definition setTimeout :: "callback \<Rightarrow> nat \<Rightarrow> server \<Rightarrow> nat \<times> server" where
  "setTimeout c ms st =
     (nextTimer st,
      st\<lparr>pending := pending st @ [\<lparr>t_id = nextTimer st, delay = ms, cb = c\<rparr>],
         nextTimer := nextTimer st + 1\<rparr>)"

definition clearTimeout :: "nat \<Rightarrow> server \<Rightarrow> server" where
  "clearTimeout t st = st\<lparr>pending := filter (\<lambda>x. t_id x \<noteq> t) (pending st)\<rparr>"

definition updRoom :: "nat \<Rightarrow> (room \<Rightarrow> room) \<Rightarrow> server \<Rightarrow> server" where
  "updRoom a f st = st\<lparr>heap := (heap st)(a := f (heap st a))\<rparr>"

definition updPlayer :: "nat \<Rightarrow> nat \<Rightarrow> (player \<Rightarrow> player) \<Rightarrow> server \<Rightarrow> server" where
  "updPlayer a i f st = updRoom a (\<lambda>r. r\<lparr>players := (players r)[i := f (players r ! i)]\<rparr>) st"

text \<open>\<open>socket.join(room)\<close> followed by \<open>socket.currentRoomId = room\<close>.\<close>

definition socketEnter :: "string \<Rightarrow> string \<Rightarrow> server \<Rightarrow> server" where
  "socketEnter sid rid st =
     st\<lparr>sockets := (sockets st)(sid := (sockets st sid)
          \<lparr>currentRoomId := Some rid, joinedRooms := insert rid (joinedRooms (sockets st sid))\<rparr>)\<rparr>"

subsection \<open>Turn timer\<close>

definition startTurnTimer :: "nat \<Rightarrow> server \<Rightarrow> server" where
  "startTurnTimer a st =
     (let st1 = (case turnTimer (heap st a) of Some t \<Rightarrow> clearTimeout t st | None \<Rightarrow> st);
          (t, st2) = setTimeout (TurnTimeout a) TURN_TIMEOUT st1
      in updRoom a (\<lambda>r. r\<lparr>turnTimer := Some t\<rparr>) st2)"

definition clearTurnTimer :: "nat \<Rightarrow> server \<Rightarrow> server" where
  "clearTurnTimer a st =
     (case turnTimer (heap st a) of
        Some t \<Rightarrow> updRoom a (\<lambda>r. r\<lparr>turnTimer := None\<rparr>) (clearTimeout t st)
      | None \<Rightarrow> st)"

subsection \<open>User store and settlement\<close>

definition getUserAny :: "server \<Rightarrow> string \<Rightarrow> user option" where
  "getUserAny st uid = (if redisConnected st then redisUsers st uid else users st uid)"

text \<open>\<open>saveUser\<close> of the Redis client stamps \<open>lastUpdate\<close> before it writes.\<close>

definition saveUser :: "nat \<Rightarrow> string \<Rightarrow> user \<Rightarrow> server \<Rightarrow> server" where
  "saveUser now uid u st = st\<lparr>redisUsers := (redisUsers st)(uid \<mapsto> u\<lparr>lastUpdate := Some now\<rparr>)\<rparr>"

definition updateLeaderboard :: "string \<Rightarrow> int \<Rightarrow> server \<Rightarrow> server" where
  "updateLeaderboard uid w st = st\<lparr>leaderboard := (leaderboard st)(uid \<mapsto> w)\<rparr>"

text \<open>The body of the loop of \<open>updatePlayerCoinsAndStats\<close>, for one result.\<close>

definition creditUser :: "nat \<Rightarrow> result \<Rightarrow> server \<Rightarrow> server" where
  "creditUser now res st =
     (case getUserAny st (user_id res) of
        None \<Rightarrow> st
      | Some u \<Rightarrow>
          (let u1 = u\<lparr>coins := coins u + winning_coin res,
                      totalGamesPlayed := totalGamesPlayed u + 1\<rparr>;
               u2 = (if player_status res = WIN
                     then u1\<lparr>winCount := winCount u1 + 1, level := 1 + (winCount u1 + 1) div 10\<rparr>
                     else u1\<lparr>lostCount := lostCount u1 + 1\<rparr>)
           in if redisConnected st
              then updateLeaderboard (user_id res) (winCount u2) (saveUser now (user_id res) u2 st)
              else st\<lparr>users := (users st)(user_id res \<mapsto> u2)\<rparr>))"

fun updatePlayerCoinsAndStats :: "nat \<Rightarrow> result list \<Rightarrow> server \<Rightarrow> server" where
  "updatePlayerCoinsAndStats now [] st = st"
| "updatePlayerCoinsAndStats now (res # rest) st =
     updatePlayerCoinsAndStats now rest (creditUser now res st)"

text \<open>
  The three statements that every end of game repeats: compute the results from the
  room object, credit them, send \<open>game_over\<close> to the room.
\<close>

definition settle :: "nat \<Rightarrow> nat \<Rightarrow> server \<Rightarrow> server" where
  "settle now a st =
     (let results = calculateGameResults (heap st a);
          st1 = updatePlayerCoinsAndStats now results st
      in emit (ToRoom (roomId (heap st a))) ''game_over'' (PResults results) st1)"

subsection \<open>findAvailableRoom\<close>

text \<open>
  The \<open>for ... of rooms.entries()\<close> loop; the value returned is the room object, here
  its address.
\<close>

fun findAvailableRoom_loop :: "(nat \<Rightarrow> room) \<Rightarrow> (string \<times> nat) list \<Rightarrow> int \<Rightarrow> int \<Rightarrow> nat option" where
  "findAvailableRoom_loop h [] bet playerCount = None"
| "findAvailableRoom_loop h ((rid, a) # es) bet playerCount =
     (if roomStatus (h a) = GS_WAITING \<and> betAmount (h a) = bet \<and>
         maxPlayers (h a) = playerCount \<and> int (length (players (h a))) < playerCount
      then Some a
      else findAvailableRoom_loop h es bet playerCount)"

definition findAvailableRoom :: "server \<Rightarrow> int \<Rightarrow> int \<Rightarrow> nat option" where
  "findAvailableRoom st bet playerCount = findAvailableRoom_loop (heap st) (rooms st) bet playerCount"

text \<open>\<open>room = createRoom(...); rooms.set(roomId, room)\<close>: a new object, then the registry entry.\<close>

definition newRoom :: "room \<Rightarrow> server \<Rightarrow> nat \<times> server" where
  "newRoom r st =
     (nextAddr st,
      st\<lparr>heap := (heap st)(nextAddr st := r), nextAddr := nextAddr st + 1,
         rooms := rooms_set (roomId r) (nextAddr st) (rooms st)\<rparr>)"

definition pushPlayer :: "nat \<Rightarrow> player \<Rightarrow> server \<Rightarrow> server" where
  "pushPlayer a p st = updRoom a (\<lambda>r. r\<lparr>players := players r @ [p]\<rparr>) st"

text \<open>
  An element of \<open>userdata\<close> in \<open>game_start\<close>. The source reads the fields \<open>user_coin\<close>,
  \<open>numof_win\<close>, \<open>numof_lose\<close>, \<open>user_level\<close>, \<open>login_type\<close> of the stored user, which no
  stored user has, so the \<open>||\<close> defaults are what is sent.
\<close>

definition gameStartEntry :: "player \<Rightarrow> nat \<times> string \<times> string \<times> int \<times> int \<times> int \<times> int \<times> string" where
  "gameStartEntry p = (peerId p, userId p, userName p, 1000, 0, 0, 1, ''Guest'')"

section \<open>Timer callbacks\<close>

text \<open>The tail of the turn-timer callback, from the comment "Auto change turn" on.\<close>

definition turnChange :: "nat \<Rightarrow> nat \<Rightarrow> server \<Rightarrow> server" where
  "turnChange now a st =
     (case getNextTurn (heap st a) of
        Some nextTurn \<Rightarrow>
          (let st1 = updRoom a (\<lambda>r. r\<lparr>currentTurn := nextTurn\<rparr>) st;
               nextPlayer = players (heap st1 a) ! nextTurn;
               st2 = emit (ToRoom (roomId (heap st1 a))) ''turn_changed'' (PPeer (peerId nextPlayer)) st1
           in startTurnTimer a st2)
      | None \<Rightarrow> settle now a (clearTurnTimer a st))"

text \<open>The callback that \<open>startTurnTimer\<close> schedules, run when the timer fires.\<close>

definition turnTimeout :: "nat \<Rightarrow> nat \<Rightarrow> server \<Rightarrow> server" where
  "turnTimeout now a st =
     (let i = currentTurn (heap st a) in
      if i < length (players (heap st a)) \<and> status (players (heap st a) ! i) = PLAYING then
        (let st1 = updPlayer a i (\<lambda>p. p\<lparr>numoftimeout := numoftimeout p + 1\<rparr>) st;
             cur = players (heap st1 a) ! i;
             rid = roomId (heap st1 a);
             st2 = emit (ToRoom rid) ''user_timeout_counter''
                     (PTimeoutCounter (peerId cur) (numoftimeout cur)) st1
         in if numoftimeout cur \<ge> 3 then
              (let st3 = updPlayer a i (\<lambda>p. p\<lparr>status := TIMEOUT\<rparr>) st2;
                   st4 = emit (ToRoom rid) ''user_timeout'' (PPeer (peerId cur)) st3;
                   activeCount = playingCount (players (heap st4 a))
               in if activeCount = 1 then
                    (case findIndex (\<lambda>p. status p = PLAYING) (players (heap st4 a)) of
                       Some w \<Rightarrow>
                         (let st5 = updPlayer a w (\<lambda>p. p\<lparr>status := WIN\<rparr>) st4;
                              st6 = emit (ToRoom rid) ''win_game''
                                      (PPeer (peerId (players (heap st5 a) ! w))) st5;
                              st7 = clearTurnTimer a st6;
                              st8 = updRoom a (\<lambda>r. r\<lparr>roomStatus := GS_FINISHED\<rparr>) st7
                          in snd (setTimeout (DelayedSettle a) 2000 st8))
                     | None \<Rightarrow> turnChange now a st4)
                  else if activeCount = 0 then settle now a (clearTurnTimer a st4)
                  else turnChange now a st4)
            else turnChange now a st2)
      else st)"

text \<open>
  The callback of the disconnect handler. It reads \<open>socket.currentRoomId\<close> again when it
  runs and looks the room up in the registry again.
\<close>

definition disconnectGrace :: "string \<Rightarrow> string \<Rightarrow> string \<Rightarrow> nat \<Rightarrow> server \<Rightarrow> server" where
  "disconnectGrace sid room_roomId player_userId player_peerId st =
     (case currentRoomId (sockets st sid) of
        None \<Rightarrow> st
      | Some rid \<Rightarrow>
          (case rooms_get st rid of
             None \<Rightarrow> st
           | Some a \<Rightarrow>
               (case findIndex (\<lambda>p. userId p = player_userId) (players (heap st a)) of
                  None \<Rightarrow> st
                | Some i \<Rightarrow>
                    if socketId (players (heap st a) ! i) = sid then
                      emit (ToRoomExcept room_roomId sid) ''user_timeout'' (PPeer player_peerId)
                        (updPlayer a i (\<lambda>p. p\<lparr>status := TIMEOUT\<rparr>) st)
                    else st)))"

definition runCallback :: "nat \<Rightarrow> callback \<Rightarrow> server \<Rightarrow> server" where
  "runCallback now c st =
     (case c of
        TurnTimeout a \<Rightarrow> turnTimeout now a st
      | DelayedSettle a \<Rightarrow> settle now a st
      | RoomCleanup rid \<Rightarrow> st\<lparr>rooms := rooms_delete rid (rooms st)\<rparr>
      | DisconnectGrace sid rr u peer \<Rightarrow> disconnectGrace sid rr u peer st)"

text \<open>A pending timer fires: it leaves the pending set and its callback runs.\<close>

definition fire :: "nat \<Rightarrow> nat \<Rightarrow> server \<Rightarrow> server" where
  "fire now t st =
     (case find (\<lambda>x. t_id x = t) (pending st) of
        None \<Rightarrow> st
      | Some tm \<Rightarrow> runCallback now (cb tm) (st\<lparr>pending := filter (\<lambda>x. t_id x \<noteq> t) (pending st)\<rparr>))"

section \<open>Event handlers\<close>

text \<open>
  Each handler takes the id of the socket the event arrived on and the parsed payload;
  \<open>None\<close> is a payload on which \<open>JSON.parse\<close> or the destructuring throws, which sends
  the handler to its \<open>catch\<close> branch.
\<close>

definition request_join ::
  "nat \<Rightarrow> string \<Rightarrow> string \<Rightarrow> (string \<times> string \<times> int \<times> int) option \<Rightarrow> server \<Rightarrow> server" where
  "request_join now uuid sid data st =
     (case data of
        None \<Rightarrow> emit (ToSocket sid) ''error'' (PMessage ''Failed to join room'') st
      | Some (uid, uname, bet_amount, player_count) \<Rightarrow>
          (case getUserAny st uid of
             None \<Rightarrow> emit (ToSocket sid) ''error'' (PMessage ''User not found'') st
           | Some u \<Rightarrow>
               if coins u < bet_amount then
                 emit (ToSocket sid) ''insufficient_coins'' (PInsufficient bet_amount (coins u)) st
               else
                 (let u' = u\<lparr>coins := coins u - bet_amount\<rparr>;
                      st1 = (if redisConnected st then saveUser now uid u' st
                             else st\<lparr>users := (users st)(uid \<mapsto> u')\<rparr>);
                      (a, st2) = (case findAvailableRoom st1 bet_amount player_count of
                                    Some a \<Rightarrow> (a, st1)
                                  | None \<Rightarrow>
                                      newRoom (createRoom uuid uid bet_amount player_count now) st1);
                      st3 = pushPlayer a
                              (createPlayer uid uname (length (players (heap st2 a))) sid now) st2;
                      st4 = socketEnter sid (roomId (heap st3 a)) st3
                  in if int (length (players (heap st4 a))) = maxPlayers (heap st4 a) then
                       (let st5 = updRoom a (\<lambda>r. r\<lparr>roomStatus := GS_PLAYING, currentTurn := 0\<rparr>) st4;
                            st6 = emit (ToRoom (roomId (heap st5 a))) ''game_start''
                                    (PGameStart (roomId (heap st5 a)) bet_amount
                                       (map gameStartEntry (players (heap st5 a)))) st5
                        in startTurnTimer a st6)
                     else st4)))"

text \<open>
  The friend-room handlers read the in-memory \<open>users\<close> map whatever the Redis state, and
  \<open>user.coins -= ...\<close> assigns to the object stored in that map. \<open>minted\<close> is
  \<open>uuidv4().substring(0, 6).toUpperCase()\<close>, used when \<open>room_code\<close> is absent or empty.
\<close>

definition friend_create_room ::
  "nat \<Rightarrow> string \<Rightarrow> string \<Rightarrow> (string \<times> string \<times> int \<times> int \<times> string option) option
     \<Rightarrow> server \<Rightarrow> server" where
  "friend_create_room now minted sid data st =
     (case data of
        None \<Rightarrow> emit (ToSocket sid) ''friend_error_response'' (PMessage ''Failed to create room'') st
      | Some (uid, uname, bet_amount, player_count, room_code) \<Rightarrow>
          (case users st uid of
             None \<Rightarrow> emit (ToSocket sid) ''friend_error_response'' (PMessage ''User not found'') st
           | Some u \<Rightarrow>
               if coins u < bet_amount then
                 emit (ToSocket sid) ''insufficient_coins'' (PInsufficient bet_amount (coins u)) st
               else
                 (let st1 = st\<lparr>users := (users st)(uid \<mapsto> u\<lparr>coins := coins u - bet_amount\<rparr>)\<rparr>;
                      rid = (case room_code of
                               Some c \<Rightarrow> if c = [] then minted else c
                             | None \<Rightarrow> minted);
                      (a, st2) = newRoom (createRoom rid uid bet_amount player_count now) st1;
                      st3 = pushPlayer a (createPlayer uid uname 0 sid now) st2;
                      st4 = socketEnter sid rid st3
                  in emit (ToSocket sid) ''friend_room_code'' (PRoomCode rid) st4)))"

definition friend_join_room ::
  "nat \<Rightarrow> string \<Rightarrow> (string \<times> string \<times> string) option \<Rightarrow> server \<Rightarrow> server" where
  "friend_join_room now sid data st =
     (case data of
        None \<Rightarrow> emit (ToSocket sid) ''friend_error_response'' (PMessage ''Failed to join room'') st
      | Some (uid, uname, room_code) \<Rightarrow>
          (case rooms_get st room_code of
             None \<Rightarrow> emit (ToSocket sid) ''friend_error_response'' (PMessage ''Room not found'') st
           | Some a \<Rightarrow>
               if int (length (players (heap st a))) \<ge> maxPlayers (heap st a) then
                 emit (ToSocket sid) ''friend_error_response'' (PMessage ''Room is full'') st
               else
                 (case users st uid of
                    None \<Rightarrow>
                      emit (ToSocket sid) ''friend_error_response'' (PMessage ''User not found'') st
                  | Some u \<Rightarrow>
                      if coins u < betAmount (heap st a) then
                        emit (ToSocket sid) ''insufficient_coins''
                          (PInsufficient (betAmount (heap st a)) (coins u)) st
                      else
                        (let st1 = st\<lparr>users := (users st)
                                     (uid \<mapsto> u\<lparr>coins := coins u - betAmount (heap st a)\<rparr>)\<rparr>
                         in if roomStatus (heap st1 a) \<noteq> GS_WAITING then
                              emit (ToSocket sid) ''friend_error_response''
                                (PMessage ''Game already started'') st1
                            else
                              (let p = createPlayer uid uname
                                         (length (players (heap st1 a))) sid now;
                                   st2 = pushPlayer a p st1;
                                   st3 = socketEnter sid room_code st2;
                                   st4 = emit (ToRoom room_code) ''player_joined''
                                           (PPlayerJoined (peerId p) uname
                                              (length (players (heap st3 a))) (maxPlayers (heap st3 a))) st3
                               in if int (length (players (heap st4 a))) = maxPlayers (heap st4 a) then
                                    (let st5 = updRoom a
                                                 (\<lambda>r. r\<lparr>roomStatus := GS_PLAYING, currentTurn := 0\<rparr>) st4
                                     in emit (ToRoom room_code) ''game_start''
                                          (PGameStart (roomId (heap st5 a)) (betAmount (heap st5 a))
                                             (map gameStartEntry (players (heap st5 a)))) st5)
                                  else st4)))))"

definition dice_send :: "string \<Rightarrow> (string \<times> nat \<times> int) option \<Rightarrow> server \<Rightarrow> server" where
  "dice_send sid data st =
     (case data of
        None \<Rightarrow> st
      | Some (room_id, peer_id, dice_face) \<Rightarrow>
          (case rooms_get st room_id of
             None \<Rightarrow> st
           | Some a \<Rightarrow>
               (let st1 = startTurnTimer a (clearTurnTimer a st);
                    st2 = updRoom a (\<lambda>r. r\<lparr>gameData := (gameData r)\<lparr>lastDice := dice_face\<rparr>\<rparr>) st1
                in emit (ToRoomExcept room_id sid) ''dice_recieved'' (PDice peer_id dice_face) st2)))"

definition token_send ::
  "nat \<Rightarrow> string \<Rightarrow> (string \<times> nat \<times> int \<times> int) option \<Rightarrow> server \<Rightarrow> server" where
  "token_send now sid data st =
     (case data of
        None \<Rightarrow> st
      | Some (room_id, peer_id, token_id, token_value) \<Rightarrow>
          (case rooms_get st room_id of
             None \<Rightarrow> st
           | Some a \<Rightarrow>
               (let st1 = startTurnTimer a (clearTurnTimer a st);
                    mv = \<lparr>m_peerId = peer_id, m_tokenId = token_id, m_tokenValue = token_value,
                          m_timestamp = now\<rparr>;
                    st2 = updRoom a
                            (\<lambda>r. r\<lparr>gameData := (gameData r)\<lparr>moves := moves (gameData r) @ [mv]\<rparr>\<rparr>) st1
                in emit (ToRoomExcept room_id sid) ''token_recieved''
                     (PToken peer_id token_id token_value (lastDice (gameData (heap st2 a)))) st2)))"

definition token_reset ::
  "string \<Rightarrow> (string \<times> nat \<times> int \<times> int) option \<Rightarrow> server \<Rightarrow> server" where
  "token_reset sid data st =
     (case data of
        None \<Rightarrow> st
      | Some (room_id, peer_id, token_id, token_value) \<Rightarrow>
          emit (ToRoomExcept room_id sid) ''token_recieved''
            (PToken peer_id token_id token_value 0) st)"

definition win_game ::
  "nat \<Rightarrow> string \<Rightarrow> (string \<times> nat \<times> int) option \<Rightarrow> server \<Rightarrow> server" where
  "win_game now sid data st =
     (case data of
        None \<Rightarrow> st
      | Some (room_id, peer_id, rank) \<Rightarrow>
          (case rooms_get st room_id of
             None \<Rightarrow> st
           | Some a \<Rightarrow>
               (let st1 = (if peer_id < length (players (heap st a))
                           then updPlayer a peer_id (\<lambda>p. p\<lparr>status := WIN\<rparr>) st else st);
                    st2 = emit (ToRoomExcept room_id sid) ''win_game'' (PPeer peer_id) st1
                in if playingCount (players (heap st2 a)) \<le> 1 then
                     (let st3 = updRoom a (\<lambda>r. r\<lparr>roomStatus := GS_FINISHED\<rparr>) st2;
                          st4 = clearTurnTimer a st3;
                          results = calculateGameResults (heap st4 a);
                          st5 = updatePlayerCoinsAndStats now results st4;
                          st6 = emit (ToRoom room_id) ''game_over'' (PResults results) st5
                      in snd (setTimeout (RoomCleanup room_id) 10000 st6))
                   else st2)))"

definition get_previous_room :: "string \<Rightarrow> (string \<times> string) option \<Rightarrow> server \<Rightarrow> server" where
  "get_previous_room sid data st =
     (case data of
        None \<Rightarrow> emit (ToSocket sid) ''room_not_found'' (PMessage ''Failed to reconnect'') st
      | Some (room_id, uid) \<Rightarrow>
          (case rooms_get st room_id of
             None \<Rightarrow>
               emit (ToSocket sid) ''room_not_found'' (PMessage ''Room not found or expired'') st
           | Some a \<Rightarrow>
               (case findIndex (\<lambda>p. userId p = uid) (players (heap st a)) of
                  None \<Rightarrow>
                    emit (ToSocket sid) ''room_not_found'' (PMessage ''Player not in room'') st
                | Some i \<Rightarrow>
                    (let st1 = updPlayer a i (\<lambda>p. p\<lparr>socketId := sid\<rparr>) st;
                         st2 = socketEnter sid room_id st1;
                         r = heap st2 a
                     in emit (ToSocket sid) ''previous_room_data''
                          (PRoomData (roomId r) (peerId (players r ! i)) (currentTurn r)
                             (map (\<lambda>p. (peerId p, userId p, userName p, status p)) (players r))
                             (gameData r)) st2))))"

text \<open>
  \<open>if (socket.currentRoomId)\<close> is false for \<open>null\<close> and for the empty string. The handler
  does not look at the status of the room.
\<close>

definition disconnect :: "string \<Rightarrow> server \<Rightarrow> server" where
  "disconnect sid st =
     (let st1 =
            (case currentRoomId (sockets st sid) of
               None \<Rightarrow> st
             | Some rid \<Rightarrow>
                 if rid = [] then st
                 else
                   (case rooms_get st rid of
                      None \<Rightarrow> st
                    | Some a \<Rightarrow>
                        (case find (\<lambda>p. socketId p = sid) (players (heap st a)) of
                           None \<Rightarrow> st
                         | Some p \<Rightarrow>
                             snd (setTimeout
                                    (DisconnectGrace sid (roomId (heap st a)) (userId p) (peerId p))
                                    30000 st))))
      in case s_userId (sockets st1 sid) of
           None \<Rightarrow> st1
         | Some u \<Rightarrow> st1\<lparr>userSockets := (userSockets st1)(u := None)\<rparr>)"

section \<open>Example states\<close>

text \<open>
  Concrete rosters, rooms and runs of the handlers, used to evaluate the theorems below.
  Every user starts with the 1000 coins that \<open>get_userdata\<close> grants.
\<close>

definition ex_roster :: "player_status list \<Rightarrow> player list" where
  "ex_roster sts =
     map (\<lambda>(u, k, s). (createPlayer u u k (''s'' @ u) 0)\<lparr>status := s\<rparr>)
       (zip [''A'', ''B'', ''C'', ''D''] (zip [0, 1, 2, 3] sts))"

definition ex_room :: "int \<Rightarrow> int \<Rightarrow> player_status list \<Rightarrow> room" where
  "ex_room bet n sts = (createRoom ''R1'' ''A'' bet n 0)\<lparr>roomStatus := GS_PLAYING, players := ex_roster sts\<rparr>"

definition ex_user :: "string \<Rightarrow> int \<Rightarrow> user" where
  "ex_user u c = \<lparr>u_userId = u, u_userName = u, fcmToken = [], coins = c, level = 1, winCount = 0,
     lostCount = 0, totalGamesPlayed = 0, u_createdAt = 0, lastUpdate = None\<rparr>"

definition ex_empty :: server where
  "ex_empty =
     \<lparr>users = [''A'' \<mapsto> ex_user ''A'' 1000, ''B'' \<mapsto> ex_user ''B'' 1000,
               ''C'' \<mapsto> ex_user ''C'' 1000, ''D'' \<mapsto> ex_user ''D'' 1000],
      redisUsers = Map.empty, redisConnected = False, leaderboard = Map.empty,
      rooms = [], heap = (\<lambda>_. createRoom [] [] 0 0 0), nextAddr = 0, userSockets = Map.empty,
      sockets = (\<lambda>_. \<lparr>s_userId = None, currentRoomId = None, joinedRooms = {}\<rparr>),
      pending = [], nextTimer = 1, outbox = []\<rparr>"

text \<open>A asks for a 2-player room at bet 100 and waits; then B joins and the game starts.\<close>

definition ex_waiting :: server where
  "ex_waiting = request_join 1 ''R1'' ''sA'' (Some (''A'', ''A'', 100, 2)) ex_empty"

definition ex_playing :: server where
  "ex_playing = request_join 2 ''R2'' ''sB'' (Some (''B'', ''B'', 100, 2)) ex_waiting"

text \<open>While A waits at bet 100, B asks for a 2-player room at bet 50.\<close>

definition ex_two_rooms :: server where
  "ex_two_rooms = request_join 2 ''R2'' ''sB'' (Some (''B'', ''B'', 50, 2)) ex_waiting"

text \<open>Four players fill a 4-player room at bet 50.\<close>

definition ex_four :: server where
  "ex_four =
     request_join 4 ''R4'' ''sD'' (Some (''D'', ''D'', 50, 4))
       (request_join 3 ''R3'' ''sC'' (Some (''C'', ''C'', 50, 4))
         (request_join 2 ''R2'' ''sB'' (Some (''B'', ''B'', 50, 4))
           (request_join 1 ''R1'' ''sA'' (Some (''A'', ''A'', 50, 4)) ex_empty)))"

text \<open>In the 2-player game, A has let the turn timer run out twice.\<close>

definition ex_strike2 :: server where
  "ex_strike2 = updPlayer 0 0 (\<lambda>p. p\<lparr>numoftimeout := 2\<rparr>) ex_playing"

text \<open>
  In the 2-player game, A reports a win, which ends the game; within the ten seconds
  before the room is dropped, B reports a win too.
\<close>

definition ex_two_winners :: server where
  "ex_two_winners =
     win_game 4 ''sB'' (Some (''R1'', 1, 2)) (win_game 3 ''sA'' (Some (''R1'', 0, 1)) ex_playing)"

text \<open>
  In the 2-player game, B disconnects and the grace timer (handle 2) marks B timed out;
  then the turn timer of A fires twice (handles 1 and 3), which is \<open>ex_last_strike\<close>, and
  a third time (handle 4).
\<close>

definition ex_last_strike :: server where
  "ex_last_strike = fire 5 3 (fire 4 1 (fire 3 2 (disconnect ''sB'' ex_playing)))"

definition ex_no_winner :: server where
  "ex_no_winner = fire 6 4 ex_last_strike"

text \<open>
  A creates the friend room \<open>ABC123\<close> for two players at bet 100 and, alone in the room,
  sends \<open>win_game\<close>: the room is now \<open>finished\<close> with one seat free.
\<close>

definition ex_friend :: server where
  "ex_friend =
     win_game 2 ''sA'' (Some (''ABC123'', 0, 1))
       (friend_create_room 1 ''MINTED'' ''sA'' (Some (''A'', ''A'', 100, 2, Some ''ABC123'')) ex_empty)"

section \<open>Evaluation and frame lemmas\<close>

lemmas prim_defs = Let_def updPlayer_def updRoom_def emit_def clearTurnTimer_def clearTimeout_def
  setTimeout_def settle_def

lemmas ex_defs = ex_roster_def ex_room_def ex_user_def ex_empty_def ex_waiting_def ex_playing_def
  ex_two_rooms_def ex_four_def ex_strike2_def

lemmas handler_defs = request_join_def friend_create_room_def friend_join_room_def win_game_def
  dice_send_def token_send_def get_previous_room_def disconnect_def disconnectGrace_def
  getUserAny_def saveUser_def findAvailableRoom_def newRoom_def createRoom_def createPlayer_def
  pushPlayer_def socketEnter_def startTurnTimer_def rooms_get_def gameStartEntry_def
  TURN_TIMEOUT_def playingCount_def

lemmas run_defs = ex_defs handler_defs prim_defs fire_def runCallback_def turnTimeout_def
  turnChange_def getNextTurn_def getNextTurn_loop.simps calculateGameResults_def resultOf_def
  cmpStatus_def creditUser_def updateLeaderboard_def

lemma findIndex_Some:
  "findIndex P xs = Some i \<Longrightarrow> i < length xs \<and> P (xs ! i)"
proof (induction xs arbitrary: i)
  case Nil
  then show ?case by simp
next
  case (Cons x xs)
  then show ?case by (cases "P x") (auto simp: nth_Cons')
qed

lemma findIndex_None: "findIndex P xs = None \<longleftrightarrow> (\<forall>x\<in>set xs. \<not> P x)"
  by (induction xs) auto



lemma find_fresh:
  "\<forall>x\<in>set xs. \<not> P x \<Longrightarrow> P y \<Longrightarrow> find P (xs @ [y]) = Some y"
  by (induction xs) auto

lemma fire_fresh:
  assumes "\<forall>x\<in>set q. t_id x \<noteq> t" and "pending s = q @ [\<lparr>t_id = t, delay = d, cb = c\<rparr>]"
  shows "fire now t s = runCallback now c (s\<lparr>pending := q\<rparr>)"
proof -
  have "find (\<lambda>x. t_id x = t) (pending s) = Some \<lparr>t_id = t, delay = d, cb = c\<rparr>"
    using assms by (simp add: find_fresh)
  moreover have "filter (\<lambda>x. t_id x \<noteq> t) (pending s) = q"
    using assms by simp
  ultimately show ?thesis by (simp add: fire_def)
qed

lemma peerId_status_update:
  "peerId ((xs[w := (xs ! w)\<lparr>status := s\<rparr>]) ! w) = peerId (xs ! w)"
  by (cases "w < length xs") (simp_all add: list_update_beyond)

lemma rooms_get_delete: "map_of (rooms_delete k es) k = None"
  by (induction es) (auto simp: rooms_delete_def)

subsection \<open>Settlement touches the user store only\<close>

lemma creditUser_heap:
  "creditUser now res (st\<lparr>heap := h\<rparr>) = (creditUser now res st)\<lparr>heap := h\<rparr>"
  by (simp add: creditUser_def getUserAny_def saveUser_def updateLeaderboard_def Let_def
      split: option.splits)

lemma creditUser_pending:
  "creditUser now res (st\<lparr>pending := q\<rparr>) = (creditUser now res st)\<lparr>pending := q\<rparr>"
  by (simp add: creditUser_def getUserAny_def saveUser_def updateLeaderboard_def Let_def
      split: option.splits)

lemma creditUser_outbox:
  "creditUser now res (st\<lparr>outbox := ob\<rparr>) = (creditUser now res st)\<lparr>outbox := ob\<rparr>"
  by (simp add: creditUser_def getUserAny_def saveUser_def updateLeaderboard_def Let_def
      split: option.splits)

lemma creditUser_nextTimer:
  "creditUser now res (st\<lparr>nextTimer := n\<rparr>) = (creditUser now res st)\<lparr>nextTimer := n\<rparr>"
  by (simp add: creditUser_def getUserAny_def saveUser_def updateLeaderboard_def Let_def
      split: option.splits)

lemma settle_heap:
  "updatePlayerCoinsAndStats now rs (st\<lparr>heap := h\<rparr>) = (updatePlayerCoinsAndStats now rs st)\<lparr>heap := h\<rparr>"
  by (induction rs arbitrary: st) (simp_all add: creditUser_heap)

lemma settle_pending:
  "updatePlayerCoinsAndStats now rs (st\<lparr>pending := q\<rparr>) = (updatePlayerCoinsAndStats now rs st)\<lparr>pending := q\<rparr>"
  by (induction rs arbitrary: st) (simp_all add: creditUser_pending)

lemma settle_outbox:
  "updatePlayerCoinsAndStats now rs (st\<lparr>outbox := ob\<rparr>) = (updatePlayerCoinsAndStats now rs st)\<lparr>outbox := ob\<rparr>"
  by (induction rs arbitrary: st) (simp_all add: creditUser_outbox)

lemma settle_nextTimer:
  "updatePlayerCoinsAndStats now rs (st\<lparr>nextTimer := n\<rparr>) = (updatePlayerCoinsAndStats now rs st)\<lparr>nextTimer := n\<rparr>"
  by (induction rs arbitrary: st) (simp_all add: creditUser_nextTimer)

lemma creditUser_frame:
  "heap (creditUser now res st) = heap st \<and> pending (creditUser now res st) = pending st \<and>
   outbox (creditUser now res st) = outbox st \<and> rooms (creditUser now res st) = rooms st \<and>
   nextTimer (creditUser now res st) = nextTimer st \<and> sockets (creditUser now res st) = sockets st"
  by (simp add: creditUser_def getUserAny_def saveUser_def updateLeaderboard_def Let_def
      split: option.splits)

lemma settle_frame:
  "heap (updatePlayerCoinsAndStats now rs st) = heap st \<and>
   pending (updatePlayerCoinsAndStats now rs st) = pending st \<and>
   outbox (updatePlayerCoinsAndStats now rs st) = outbox st \<and>
   rooms (updatePlayerCoinsAndStats now rs st) = rooms st \<and>
   nextTimer (updatePlayerCoinsAndStats now rs st) = nextTimer st \<and>
   sockets (updatePlayerCoinsAndStats now rs st) = sockets st"
  by (induction rs arbitrary: st) (simp_all add: creditUser_frame)

lemma calc_roomStatus [simp]: "calculateGameResults (r\<lparr>roomStatus := s\<rparr>) = calculateGameResults r"
  by (simp add: calculateGameResults_def)

lemma calc_turnTimer [simp]: "calculateGameResults (r\<lparr>turnTimer := t\<rparr>) = calculateGameResults r"
  by (simp add: calculateGameResults_def)

section \<open>Turn advancement\<close>

lemma getNextTurn_loop_Some:
  "idx < length ps \<Longrightarrow> getNextTurn_loop ps idx att = Some i \<Longrightarrow>
   \<exists>k. att + k < length ps \<and> i = (idx + k) mod length ps \<and> status (ps ! i) = PLAYING \<and>
       (\<forall>j<k. status (ps ! ((idx + j) mod length ps)) \<noteq> PLAYING)"
proof (induction ps idx att rule: getNextTurn_loop.induct)
  case (1 ps idx att)
  show ?case
  proof (cases "att < length ps")
    case False
    with "1.prems" show ?thesis by (simp add: getNextTurn_loop.simps)
  next
    case lt: True
    show ?thesis
    proof (cases "status (ps ! idx) = PLAYING")
      case True
      with lt "1.prems" have "i = idx" by (simp add: getNextTurn_loop.simps)
      with True lt "1.prems" show ?thesis by (intro exI [of _ 0]) simp
    next
      case False
      let ?n = "length ps"
      have rec: "getNextTurn_loop ps ((idx + 1) mod ?n) (att + 1) = Some i"
        using False lt "1.prems" by (simp add: getNextTurn_loop.simps)
      have "(idx + 1) mod ?n < ?n" by (rule mod_less_divisor) (use lt in linarith)
      from "1.IH" [OF lt _ this rec] False
      obtain k where k: "att + 1 + k < ?n" "i = ((idx + 1) mod ?n + k) mod ?n"
        "status (ps ! i) = PLAYING"
        "\<forall>j<k. status (ps ! (((idx + 1) mod ?n + j) mod ?n)) \<noteq> PLAYING"
        by auto
      have shift: "\<And>j. ((idx + 1) mod ?n + j) mod ?n = (idx + Suc j) mod ?n"
        by (simp add: mod_add_left_eq)
      have "\<forall>j<Suc k. status (ps ! ((idx + j) mod ?n)) \<noteq> PLAYING"
      proof (intro allI impI)
        fix j assume "j < Suc k"
        show "status (ps ! ((idx + j) mod ?n)) \<noteq> PLAYING"
        proof (cases j)
          case 0
          with False "1.prems" show ?thesis by simp
        next
          case (Suc j')
          with \<open>j < Suc k\<close> k(4) shift show ?thesis by auto
        qed
      qed
      with k shift show ?thesis by (intro exI [of _ "Suc k"]) auto
    qed
  qed
qed

lemma getNextTurn_loop_None:
  "idx < length ps \<Longrightarrow> getNextTurn_loop ps idx att = None \<Longrightarrow>
   \<forall>j. att + j < length ps \<longrightarrow> status (ps ! ((idx + j) mod length ps)) \<noteq> PLAYING"
proof (induction ps idx att rule: getNextTurn_loop.induct)
  case (1 ps idx att)
  let ?n = "length ps"
  show ?case
  proof (intro allI impI)
    fix j assume j: "att + j < ?n"
    then have lt: "att < ?n" by simp
    from "1.prems" lt have np: "status (ps ! idx) \<noteq> PLAYING"
      by (auto simp: getNextTurn_loop.simps split: if_splits)
    with "1.prems" lt have rec: "getNextTurn_loop ps ((idx + 1) mod ?n) (att + 1) = None"
      by (simp add: getNextTurn_loop.simps)
    have "(idx + 1) mod ?n < ?n" by (rule mod_less_divisor) (use lt in linarith)
    from "1.IH" [OF lt _ this rec] np
    have ih: "\<forall>j. att + 1 + j < ?n \<longrightarrow> status (ps ! (((idx + 1) mod ?n + j) mod ?n)) \<noteq> PLAYING"
      by auto
    show "status (ps ! ((idx + j) mod ?n)) \<noteq> PLAYING"
    proof (cases j)
      case 0
      with np "1.prems" show ?thesis by simp
    next
      case (Suc j')
      with j ih have "status (ps ! (((idx + 1) mod ?n + j') mod ?n)) \<noteq> PLAYING" by simp
      then show ?thesis using Suc by (simp add: mod_add_left_eq)
    qed
  qed
qed

lemma cyclic_cover:
  assumes "m < n" "s < (n::nat)"
  shows "\<exists>j<n. (s + j) mod n = m"
proof (cases "s \<le> m")
  case True
  then show ?thesis using assms by (intro exI [of _ "m - s"]) auto
next
  case False
  then have "(s + (n + m - s)) mod n = m" using assms by simp
  moreover have "n + m - s < n" using False assms by simp
  ultimately show ?thesis by blast
qed

text \<open>
  Claim C7. \<open>getNextTurn\<close> reports "no active player" exactly when no player of the roster
  has status \<open>PLAYING\<close> (players in \<open>WIN\<close>, \<open>LEFT\<close> or \<open>TIMEOUT\<close> never get the turn). Otherwise
  it returns the first position, in the cyclic order that starts at
  \<open>(currentTurn + 1) mod N\<close> and visits at most \<open>N\<close> positions, whose player is \<open>PLAYING\<close>.
\<close>

theorem getNextTurn_first_playing:
  "(getNextTurn r = None \<longleftrightarrow> (\<forall>p\<in>set (players r). status p \<noteq> PLAYING)) \<and>
   (\<forall>i. getNextTurn r = Some i \<longrightarrow>
      (\<exists>k<length (players r).
          i = ((currentTurn r + 1) mod length (players r) + k) mod length (players r) \<and>
          i < length (players r) \<and> status (players r ! i) = PLAYING \<and>
          (\<forall>j<k. status (players r ! (((currentTurn r + 1) mod length (players r) + j)
                     mod length (players r))) \<noteq> PLAYING)))"
proof -
  let ?ps = "players r"
  let ?n = "length ?ps"
  let ?s = "(currentTurn r + 1) mod ?n"
  show ?thesis
  proof (cases "filter (\<lambda>p. status p = PLAYING \<or> status p = WIN) ?ps = []")
    case True
    then have "\<forall>p\<in>set ?ps. status p \<noteq> PLAYING" by (auto simp: filter_empty_conv)
    moreover have "getNextTurn r = None" using True by (simp add: getNextTurn_def)
    ultimately show ?thesis by simp
  next
    case False
    then have ne: "?ps \<noteq> []" by auto
    then have s: "?s < ?n" by simp
    have g: "getNextTurn r = getNextTurn_loop ?ps ?s 0"
      using False by (simp add: getNextTurn_def)
    have a: "getNextTurn r = None \<Longrightarrow> \<forall>p\<in>set ?ps. status p \<noteq> PLAYING"
    proof
      fix p assume none: "getNextTurn r = None" and "p \<in> set ?ps"
      then obtain m where m: "m < ?n" "?ps ! m = p" by (auto simp: in_set_conv_nth)
      from cyclic_cover [OF m(1) s] obtain j where j: "j < ?n" "(?s + j) mod ?n = m" by blast
      from getNextTurn_loop_None [OF s] none g j have "status (?ps ! m) \<noteq> PLAYING" by auto
      with m show "status p \<noteq> PLAYING" by simp
    qed
    have b: "\<And>i. getNextTurn r = Some i \<Longrightarrow>
        \<exists>k<?n. i = (?s + k) mod ?n \<and> i < ?n \<and> status (?ps ! i) = PLAYING \<and>
          (\<forall>j<k. status (?ps ! ((?s + j) mod ?n)) \<noteq> PLAYING)"
    proof -
      fix i assume "getNextTurn r = Some i"
      with g have "getNextTurn_loop ?ps ?s 0 = Some i" by simp
      from getNextTurn_loop_Some [OF s this] obtain k where
        k: "k < ?n" "i = (?s + k) mod ?n" "status (?ps ! i) = PLAYING"
           "\<forall>j<k. status (?ps ! ((?s + j) mod ?n)) \<noteq> PLAYING" by auto
      moreover have "i < ?n" using k(2) ne by simp
      ultimately show "\<exists>k<?n. i = (?s + k) mod ?n \<and> i < ?n \<and> status (?ps ! i) = PLAYING \<and>
          (\<forall>j<k. status (?ps ! ((?s + j) mod ?n)) \<noteq> PLAYING)" by blast
    qed
    have c: "\<forall>p\<in>set ?ps. status p \<noteq> PLAYING \<Longrightarrow> getNextTurn r = None"
    proof (rule ccontr)
      assume all: "\<forall>p\<in>set ?ps. status p \<noteq> PLAYING" and "getNextTurn r \<noteq> None"
      then obtain i where "getNextTurn r = Some i" by auto
      from b [OF this] obtain k where "i < ?n" "status (?ps ! i) = PLAYING" by auto
      with all show False by (auto simp: all_set_conv_all_nth)
    qed
    from a b c show ?thesis by blast
  qed
qed

text \<open>
  The theorem at two rosters: with \<open>WIN, LEFT\<close> nobody is left to play; with
  \<open>WIN, TIMEOUT, PLAYING, LEFT\<close> and the turn at position 0, position 1 is skipped and the
  turn goes to position 2.
\<close>

theorem getNextTurn_first_playing_witness:
  "map status (players (ex_room 100 2 [WIN, LEFT])) = [WIN, LEFT] \<and>
   getNextTurn (ex_room 100 2 [WIN, LEFT]) = None \<and>
   getNextTurn (ex_room 100 4 [WIN, TIMEOUT, PLAYING, LEFT]) = Some 2 \<and>
   (\<exists>k<4. 2 = (1 + k) mod 4 \<and>
      status (players (ex_room 100 4 [WIN, TIMEOUT, PLAYING, LEFT]) ! 2) = PLAYING \<and>
      (\<forall>j<k. status (players (ex_room 100 4 [WIN, TIMEOUT, PLAYING, LEFT]) ! ((1 + j) mod 4))
          \<noteq> PLAYING))"
proof -
  let ?a = "ex_room 100 2 [WIN, LEFT]"
  let ?b = "ex_room 100 4 [WIN, TIMEOUT, PLAYING, LEFT]"
  have a: "\<forall>p\<in>set (players ?a). status p \<noteq> PLAYING"
    by (simp add: ex_defs createRoom_def createPlayer_def)
  have b: "getNextTurn ?b = Some 2"
    by (simp add: ex_defs createRoom_def createPlayer_def getNextTurn_def getNextTurn_loop.simps)
  have n: "length (players ?b) = 4" "currentTurn ?b = 0"
    by (simp_all add: ex_defs createRoom_def)
  from getNextTurn_first_playing [of ?a] a have "getNextTurn ?a = None" by blast
  moreover from getNextTurn_first_playing [of ?b] b
  have "\<exists>k<4. 2 = (1 + k) mod 4 \<and> status (players ?b ! 2) = PLAYING \<and>
      (\<forall>j<k. status (players ?b ! ((1 + j) mod 4)) \<noteq> PLAYING)"
    unfolding n by auto
  moreover have "map status (players ?a) = [WIN, LEFT]"
    by (simp add: ex_defs createRoom_def createPlayer_def)
  ultimately show ?thesis using b by blast
qed

section \<open>Token reset\<close>

text \<open>
  Claim C10. A \<open>token_reset\<close> event sends one \<open>token_recieved\<close> message with
  \<open>dice_face = 0\<close> to the broadcast group of the named room without the sender, and changes
  nothing else: room objects (so \<open>lastDice\<close>, the move log and the timer handle), the
  registry and the pending timers stay as they are.
\<close>

theorem token_reset_relays_only:
  "token_reset sid (Some (rid, peer, tid, tv)) st =
     st\<lparr>outbox := outbox st @ [(ToRoomExcept rid sid, ''token_recieved'', PToken peer tid tv 0)]\<rparr> \<and>
   heap (token_reset sid (Some (rid, peer, tid, tv)) st) = heap st \<and>
   rooms (token_reset sid (Some (rid, peer, tid, tv)) st) = rooms st \<and>
   pending (token_reset sid (Some (rid, peer, tid, tv)) st) = pending st \<and>
   nextTimer (token_reset sid (Some (rid, peer, tid, tv)) st) = nextTimer st"
  by (simp add: token_reset_def emit_def)

section \<open>Settlement\<close>

lemma insertBy_front:
  "\<forall>y\<in>set ys. status y \<noteq> WIN \<Longrightarrow> insertBy cmpStatus x ys = x # ys"
  by (cases ys) (auto simp: cmpStatus_def)

lemma insertBy_win:
  "status x = WIN \<Longrightarrow> insertBy cmpStatus x ys = x # ys"
  by (cases ys) (auto simp: cmpStatus_def)

lemma insertBy_nonwin:
  "status x \<noteq> WIN \<Longrightarrow>
   insertBy cmpStatus x (filter (\<lambda>p. status p = WIN) ps @ filter (\<lambda>p. status p \<noteq> WIN) qs)
     = filter (\<lambda>p. status p = WIN) ps @ x # filter (\<lambda>p. status p \<noteq> WIN) qs"
proof (induction ps)
  case Nil
  then show ?case by (simp add: insertBy_front)
next
  case (Cons p ps)
  then show ?case by (auto simp: cmpStatus_def)
qed

text \<open>The sort puts the winners first and keeps the roster order inside both groups.\<close>

lemma sortBy_cmpStatus:
  "sortBy cmpStatus ps = filter (\<lambda>p. status p = WIN) ps @ filter (\<lambda>p. status p \<noteq> WIN) ps"
proof (induction ps)
  case Nil
  show ?case by simp
next
  case (Cons x xs)
  show ?case
  proof (cases "status x = WIN")
    case True
    then show ?thesis using Cons by (simp add: insertBy_win)
  next
    case False
    then show ?thesis using Cons by (simp add: insertBy_nonwin)
  qed
qed

lemma length_sortBy: "length (sortBy cmpStatus ps) = length ps"
  by (simp add: sortBy_cmpStatus sum_length_filter_compl)

lemma calc_length: "length (calculateGameResults r) = length (players r)"
  by (simp add: calculateGameResults_def length_sortBy)

lemma calc_nth:
  "i < length (players r) \<Longrightarrow>
   calculateGameResults r ! i =
     resultOf (betAmount r) (maxPlayers r) i (sortBy cmpStatus (players r) ! i)"
  by (simp add: calculateGameResults_def length_sortBy nth_enumerate_eq)

lemma ex_two_winners_room:
  "heap ex_two_winners 0 =
     (createRoom ''R1'' ''A'' 100 2 1)
       \<lparr>roomStatus := GS_FINISHED,
        players := [(createPlayer ''A'' ''A'' 0 ''sA'' 1)\<lparr>status := WIN\<rparr>,
                    (createPlayer ''B'' ''B'' 1 ''sB'' 2)\<lparr>status := WIN\<rparr>]\<rparr>"
  by (simp add: ex_two_winners_def run_defs)

text \<open>
  Claim C2, at the failing input. In \<open>ex_playing\<close>, a 2-player game at bet 100, A sends
  \<open>win_game\<close>: the room is finished and \<open>game_over\<close> pays A 200 and B 0, as the claim says.
  Within the ten seconds before the room is dropped, B sends \<open>win_game\<close> too, which is
  \<open>ex_two_winners\<close>: the finished room is settled again with both players \<open>WIN\<close>, and the
  player of rank 2, who is not the rank-1 winner, is paid 200 as well. A ends with 1300
  coins and B with 1100, from 900 each after the bets.
\<close>

theorem two_player_second_winner_paid:
  "maxPlayers (heap ex_playing 0) = 2 \<and> betAmount (heap ex_playing 0) = 100 \<and>
   roomStatus (heap (win_game 3 ''sA'' (Some (''R1'', 0, 1)) ex_playing) 0) = GS_FINISHED \<and>
   last (outbox (win_game 3 ''sA'' (Some (''R1'', 0, 1)) ex_playing)) =
     (ToRoom ''R1'', ''game_over'',
      PResults [\<lparr>user_name = ''A'', user_id = ''A'', winning_coin = 200, player_rank = 1,
                 player_status = WIN\<rparr>,
                \<lparr>user_name = ''B'', user_id = ''B'', winning_coin = 0, player_rank = 2,
                 player_status = PLAYING\<rparr>]) \<and>
   maxPlayers (heap ex_two_winners 0) = 2 \<and> betAmount (heap ex_two_winners 0) = 100 \<and>
   map status (players (heap ex_two_winners 0)) = [WIN, WIN] \<and>
   player_rank (calculateGameResults (heap ex_two_winners 0) ! 1) = 2 \<and>
   player_status (calculateGameResults (heap ex_two_winners 0) ! 1) = WIN \<and>
   winning_coin (calculateGameResults (heap ex_two_winners 0) ! 1) = 200 \<and>
   last (outbox ex_two_winners) =
     (ToRoom ''R1'', ''game_over'',
      PResults [\<lparr>user_name = ''A'', user_id = ''A'', winning_coin = 200, player_rank = 1,
                 player_status = WIN\<rparr>,
                \<lparr>user_name = ''B'', user_id = ''B'', winning_coin = 200, player_rank = 2,
                 player_status = WIN\<rparr>]) \<and>
   map_option coins (users ex_two_winners ''A'') = Some 1300 \<and>
   map_option coins (users ex_two_winners ''B'') = Some 1100"
  by (simp add: ex_two_winners_def run_defs)

text \<open>
  Where settlement does what is asked of it. The results list the roster with the \<open>WIN\<close>
  players first, both groups in roster order, and the rank is the 1-based position in
  that list. A player whose status is not \<open>WIN\<close> gets 0, whatever the rank. With
  \<open>maxPlayers = 2\<close> the \<open>WIN\<close> player of rank 1 gets twice the bet. With \<open>maxPlayers = 4\<close> a
  \<open>WIN\<close> player gets three times the bet at rank 1, the bet at rank 2, and 0 from rank 3
  on.
\<close>

lemma calculateGameResults_payouts:
  assumes "i < length (players r)"
  shows "length (calculateGameResults r) = length (players r) \<and>
     (let p = (filter (\<lambda>p. status p = WIN) (players r) @
               filter (\<lambda>p. status p \<noteq> WIN) (players r)) ! i;
          res = calculateGameResults r ! i
      in user_id res = userId p \<and> user_name res = userName p \<and>
         player_status res = status p \<and> player_rank res = i + 1 \<and>
         (status p \<noteq> WIN \<longrightarrow> winning_coin res = 0) \<and>
         (status p = WIN \<and> maxPlayers r = 2 \<and> i + 1 = 1 \<longrightarrow> winning_coin res = 2 * betAmount r) \<and>
         (status p = WIN \<and> maxPlayers r = 4 \<and> i + 1 = 1 \<longrightarrow> winning_coin res = 3 * betAmount r) \<and>
         (status p = WIN \<and> maxPlayers r = 4 \<and> i + 1 = 2 \<longrightarrow> winning_coin res = betAmount r) \<and>
         (maxPlayers r = 4 \<and> i + 1 > 2 \<longrightarrow> winning_coin res = 0))"
  using assms
  by (auto simp: calc_length calc_nth sortBy_cmpStatus resultOf_def Let_def)

text \<open>
  These payouts at a 4-player room at bet 50 with statuses \<open>WIN, WIN, WIN, PLAYING\<close>
  (150, 50, 0, 0) and at a 2-player room at bet 100 where the second player won.
\<close>

lemma calculateGameResults_payouts_examples:
  "length (calculateGameResults (ex_room 50 4 [WIN, WIN, WIN, PLAYING])) = 4 \<and>
   winning_coin (calculateGameResults (ex_room 50 4 [WIN, WIN, WIN, PLAYING]) ! 0) = 150 \<and>
   winning_coin (calculateGameResults (ex_room 50 4 [WIN, WIN, WIN, PLAYING]) ! 1) = 50 \<and>
   player_rank (calculateGameResults (ex_room 50 4 [WIN, WIN, WIN, PLAYING]) ! 1) = 2 \<and>
   winning_coin (calculateGameResults (ex_room 50 4 [WIN, WIN, WIN, PLAYING]) ! 2) = 0 \<and>
   player_status (calculateGameResults (ex_room 50 4 [WIN, WIN, WIN, PLAYING]) ! 2) = WIN \<and>
   winning_coin (calculateGameResults (ex_room 50 4 [WIN, WIN, WIN, PLAYING]) ! 3) = 0 \<and>
   user_id (calculateGameResults (ex_room 100 2 [PLAYING, WIN]) ! 0) = ''B'' \<and>
   winning_coin (calculateGameResults (ex_room 100 2 [PLAYING, WIN]) ! 0) = 200 \<and>
   user_id (calculateGameResults (ex_room 100 2 [PLAYING, WIN]) ! 1) = ''A'' \<and>
   winning_coin (calculateGameResults (ex_room 100 2 [PLAYING, WIN]) ! 1) = 0"
proof -
  let ?f = "ex_room 50 4 [WIN, WIN, WIN, PLAYING]"
  let ?t = "ex_room 100 2 [PLAYING, WIN]"
  note e = ex_defs createRoom_def createPlayer_def Let_def
  show ?thesis
    using calculateGameResults_payouts [of 0 ?f] calculateGameResults_payouts [of 1 ?f]
      calculateGameResults_payouts [of 2 ?f] calculateGameResults_payouts [of 3 ?f]
      calculateGameResults_payouts [of 0 ?t] calculateGameResults_payouts [of 1 ?t]
    by (simp add: e)
qed

subsection \<open>Sum of the payouts\<close>

lemma sum_nonwin:
  "\<forall>p\<in>set xs. status p \<noteq> WIN \<Longrightarrow>
   sum_list (map (\<lambda>(i, p). winning_coin (resultOf b c i p)) (enumerate n xs)) = 0"
  by (induction xs arbitrary: n) (auto simp: resultOf_def)

lemma sum_win2:
  "\<forall>p\<in>set xs. status p = WIN \<Longrightarrow>
   sum_list (map (\<lambda>(i, p). winning_coin (resultOf b 2 i p)) (enumerate n xs))
     = 2 * b * int (length xs)"
  by (induction xs arbitrary: n) (auto simp: resultOf_def algebra_simps)

lemma sum_late4:
  "2 \<le> n \<Longrightarrow>
   sum_list (map (\<lambda>(i, p). winning_coin (resultOf b 4 i p)) (enumerate n xs)) = 0"
  by (induction xs arbitrary: n) (auto simp: resultOf_def)

lemma sum_win4:
  assumes a: "\<forall>p\<in>set xs. status p = WIN"
  shows "sum_list (map (\<lambda>(i, p). winning_coin (resultOf b 4 i p)) (enumerate 0 xs))
     = (if xs = [] then 0 else if length xs = 1 then 3 * b else 4 * b)"
proof (cases xs)
  case Nil
  then show ?thesis by simp
next
  case outer: (Cons x ys)
  show ?thesis
  proof (cases ys)
    case Nil
    with outer a show ?thesis by (simp add: resultOf_def)
  next
    case (Cons y zs)
    have "sum_list (map (\<lambda>(i, p). winning_coin (resultOf b 4 i p)) (enumerate (Suc (Suc 0)) zs)) = 0"
      by (rule sum_late4) simp
    with Cons outer a show ?thesis by (simp add: resultOf_def)
  qed
qed

lemma sum_results:
  "sum_list (map winning_coin (calculateGameResults r)) =
   sum_list (map (\<lambda>(i, p). winning_coin (resultOf (betAmount r) (maxPlayers r) i p))
      (enumerate 0 (filter (\<lambda>p. status p = WIN) (players r))))"
proof -
  let ?W = "filter (\<lambda>p. status p = WIN) (players r)"
  let ?L = "filter (\<lambda>p. status p \<noteq> WIN) (players r)"
  let ?f = "\<lambda>(i, p). winning_coin (resultOf (betAmount r) (maxPlayers r) i p)"
  have "map winning_coin (calculateGameResults r) = map ?f (enumerate 0 (?W @ ?L))"
    by (simp add: calculateGameResults_def sortBy_cmpStatus comp_def case_prod_unfold
        del: enumerate_append_eq)
  also have "\<dots> = map ?f (enumerate 0 ?W) @ map ?f (enumerate (length ?W) ?L)"
    by (simp add: enumerate_append_eq)
  finally have "sum_list (map winning_coin (calculateGameResults r)) =
      sum_list (map ?f (enumerate 0 ?W)) + sum_list (map ?f (enumerate (length ?W) ?L))"
    by simp
  moreover have "sum_list (map ?f (enumerate (length ?W) ?L)) = 0"
    by (rule sum_nonwin) simp
  ultimately show ?thesis by simp
qed

lemma ex_no_winner_room:
  "players (heap ex_no_winner 0) =
     [(createPlayer ''A'' ''A'' 0 ''sA'' 1)\<lparr>status := TIMEOUT, numoftimeout := 3\<rparr>,
      (createPlayer ''B'' ''B'' 1 ''sB'' 2)\<lparr>status := TIMEOUT\<rparr>]"
  "maxPlayers (heap ex_no_winner 0) = 2"
  "betAmount (heap ex_no_winner 0) = 100"
  "last (outbox ex_no_winner) = (ToRoom ''R1'', ''game_over'',
      PResults [\<lparr>user_name = ''A'', user_id = ''A'', winning_coin = 0, player_rank = 1,
                 player_status = TIMEOUT\<rparr>,
                \<lparr>user_name = ''B'', user_id = ''B'', winning_coin = 0, player_rank = 2,
                 player_status = TIMEOUT\<rparr>])"
  by (simp_all add: ex_no_winner_def ex_last_strike_def run_defs)

text \<open>
  Claim C3, as stated, at the room of \<open>ex_no_winner\<close>: a 2-player game at bet 100 that
  ended with both players timed out. The payouts add up to 0, not to twice the bet.
\<close>

theorem two_player_sum_without_winner:
  "maxPlayers (heap ex_no_winner 0) = 2 \<and> 2 * betAmount (heap ex_no_winner 0) = 200 \<and>
   sum_list (map winning_coin (calculateGameResults (heap ex_no_winner 0))) = 0"
  by (simp add: ex_no_winner_room createPlayer_def calculateGameResults_def resultOf_def
      cmpStatus_def)

text \<open>
  Claim C3, amended. With \<open>maxPlayers = 2\<close> the payouts add up to twice the bet when
  exactly one player is \<open>WIN\<close>, and to 0 when none is. With \<open>maxPlayers = 4\<close> they add up
  to four times the bet when at least two players are \<open>WIN\<close> and to three times the bet
  when exactly one is.
\<close>

theorem winning_coin_sum:
  "(maxPlayers r = 2 \<and> length (filter (\<lambda>p. status p = WIN) (players r)) = 1 \<longrightarrow>
      sum_list (map winning_coin (calculateGameResults r)) = 2 * betAmount r) \<and>
   (maxPlayers r = 2 \<and> length (filter (\<lambda>p. status p = WIN) (players r)) = 0 \<longrightarrow>
      sum_list (map winning_coin (calculateGameResults r)) = 0) \<and>
   (maxPlayers r = 4 \<and> length (filter (\<lambda>p. status p = WIN) (players r)) \<ge> 2 \<longrightarrow>
      sum_list (map winning_coin (calculateGameResults r)) = 4 * betAmount r) \<and>
   (maxPlayers r = 4 \<and> length (filter (\<lambda>p. status p = WIN) (players r)) = 1 \<longrightarrow>
      sum_list (map winning_coin (calculateGameResults r)) = 3 * betAmount r)"
proof -
  let ?W = "filter (\<lambda>p. status p = WIN) (players r)"
  have w: "\<forall>p\<in>set ?W. status p = WIN" by simp
  have two: "maxPlayers r = 2 \<Longrightarrow>
      sum_list (map winning_coin (calculateGameResults r)) = 2 * betAmount r * int (length ?W)"
    using sum_win2 [OF w, of "betAmount r" 0] by (simp add: sum_results)
  have four: "maxPlayers r = 4 \<Longrightarrow>
      sum_list (map winning_coin (calculateGameResults r)) =
        (if ?W = [] then 0 else if length ?W = 1 then 3 * betAmount r else 4 * betAmount r)"
    using sum_win4 [OF w, of "betAmount r"] by (simp add: sum_results)
  show ?thesis
    using two four by auto
qed

text \<open>
  The theorem at four rooms: two players with one winner (sum 200 at bet 100) and with
  none (sum 0); four players at bet 50 with three winners (sum 200) and with one (sum 150).
\<close>

theorem winning_coin_sum_witness:
  "sum_list (map winning_coin (calculateGameResults (ex_room 100 2 [WIN, PLAYING]))) = 200 \<and>
   sum_list (map winning_coin (calculateGameResults (ex_room 100 2 [TIMEOUT, TIMEOUT]))) = 0 \<and>
   sum_list (map winning_coin (calculateGameResults (ex_room 50 4 [WIN, WIN, WIN, PLAYING]))) = 200 \<and>
   sum_list (map winning_coin (calculateGameResults (ex_room 50 4 [LEFT, TIMEOUT, LEFT, WIN]))) = 150"
  using winning_coin_sum [of "ex_room 100 2 [WIN, PLAYING]"]
    winning_coin_sum [of "ex_room 100 2 [TIMEOUT, TIMEOUT]"]
    winning_coin_sum [of "ex_room 50 4 [WIN, WIN, WIN, PLAYING]"]
    winning_coin_sum [of "ex_room 50 4 [LEFT, TIMEOUT, LEFT, WIN]"]
  by (simp add: ex_defs createRoom_def createPlayer_def)

section \<open>Matchmaking lookup\<close>




lemma ex_waiting_facts:
  "rooms ex_waiting = [(''R1'', 0)]"
  "heap ex_waiting 0 =
     (createRoom ''R1'' ''A'' 100 2 1)\<lparr>players := [createPlayer ''A'' ''A'' 0 ''sA'' 1]\<rparr>"
  "pending ex_waiting = []" "outbox ex_waiting = []" "nextTimer ex_waiting = 1"
  "currentRoomId (sockets ex_waiting ''sA'') = Some ''R1''"
  by (simp_all add: ex_defs handler_defs prim_defs)



section \<open>Dice and token relay\<close>

text \<open>
  Claim C4, as stated, at \<open>ex_waiting\<close>, where room \<open>R1\<close> is \<open>waiting\<close> with A alone in
  it: a \<open>dice_send\<close> stores the dice, arms the turn timer and is relayed, and a
  \<open>token_send\<close> is logged.
\<close>

theorem dice_send_in_waiting_room:
  "roomStatus (heap ex_waiting 0) = GS_WAITING \<and>
   lastDice (gameData (heap ex_waiting 0)) = 0 \<and>
   turnTimer (heap ex_waiting 0) = None \<and>
   lastDice (gameData (heap (dice_send ''sA'' (Some (''R1'', 0, 6)) ex_waiting) 0)) = 6 \<and>
   turnTimer (heap (dice_send ''sA'' (Some (''R1'', 0, 6)) ex_waiting) 0) = Some 1 \<and>
   pending (dice_send ''sA'' (Some (''R1'', 0, 6)) ex_waiting) =
     [\<lparr>t_id = 1, delay = 30000, cb = TurnTimeout 0\<rparr>] \<and>
   outbox (dice_send ''sA'' (Some (''R1'', 0, 6)) ex_waiting) =
     [(ToRoomExcept ''R1'' ''sA'', ''dice_recieved'', PDice 0 6)] \<and>
   moves (gameData (heap (token_send 5 ''sA'' (Some (''R1'', 0, 2, 7)) ex_waiting) 0)) =
     [\<lparr>m_peerId = 0, m_tokenId = 2, m_tokenValue = 7, m_timestamp = 5\<rparr>]"
  by (simp add: ex_waiting_facts dice_send_def token_send_def rooms_get_def startTurnTimer_def
      TURN_TIMEOUT_def createRoom_def prim_defs)

text \<open>
  Claim C4, amended. The handlers of \<open>dice_send\<close> and \<open>token_send\<close> do not look at the
  status of the room. For every room of the registry, \<open>waiting\<close> ones included,
  \<open>dice_send\<close> stores the dice face in \<open>lastDice\<close> and \<open>token_send\<close> appends the move to the
  log; both replace the turn timer of the room by a new one of 30 seconds and relay the
  event to the broadcast group of the room without the sender. Only an event that names
  a room that is not in the registry changes nothing and is not relayed.
\<close>

theorem dice_token_any_status:
  "(rooms_get st rid = Some a \<longrightarrow>
      (let st' = dice_send sid (Some (rid, peer, d)) st
       in lastDice (gameData (heap st' a)) = d \<and>
          moves (gameData (heap st' a)) = moves (gameData (heap st a)) \<and>
          roomStatus (heap st' a) = roomStatus (heap st a) \<and>
          turnTimer (heap st' a) = Some (nextTimer st) \<and>
          pending st' = filter (\<lambda>x. Some (t_id x) \<noteq> turnTimer (heap st a)) (pending st) @
              [\<lparr>t_id = nextTimer st, delay = 30000, cb = TurnTimeout a\<rparr>] \<and>
          outbox st' = outbox st @ [(ToRoomExcept rid sid, ''dice_recieved'', PDice peer d)]) \<and>
      (let st' = token_send now sid (Some (rid, peer, tid, tv)) st
       in lastDice (gameData (heap st' a)) = lastDice (gameData (heap st a)) \<and>
          moves (gameData (heap st' a)) = moves (gameData (heap st a)) @
              [\<lparr>m_peerId = peer, m_tokenId = tid, m_tokenValue = tv, m_timestamp = now\<rparr>] \<and>
          roomStatus (heap st' a) = roomStatus (heap st a) \<and>
          turnTimer (heap st' a) = Some (nextTimer st) \<and>
          pending st' = filter (\<lambda>x. Some (t_id x) \<noteq> turnTimer (heap st a)) (pending st) @
              [\<lparr>t_id = nextTimer st, delay = 30000, cb = TurnTimeout a\<rparr>] \<and>
          outbox st' = outbox st @
              [(ToRoomExcept rid sid, ''token_recieved'',
                PToken peer tid tv (lastDice (gameData (heap st a))))])) \<and>
   (rooms_get st rid = None \<longrightarrow>
      dice_send sid (Some (rid, peer, d)) st = st \<and>
      token_send now sid (Some (rid, peer, tid, tv)) st = st)"
  by (cases "turnTimer (heap st a)")
     (simp_all add: dice_send_def token_send_def startTurnTimer_def TURN_TIMEOUT_def prim_defs)

text \<open>
  The theorem at \<open>ex_waiting\<close>: a token move sent into the waiting room \<open>R1\<close> is logged,
  arms the timer and is relayed; a dice roll for the unknown room \<open>R9\<close> is dropped.
\<close>

theorem dice_token_any_status_witness:
  "rooms_get ex_waiting ''R1'' = Some 0 \<and> rooms_get ex_waiting ''R9'' = None \<and>
   roomStatus (heap (token_send 5 ''sA'' (Some (''R1'', 0, 2, 7)) ex_waiting) 0) = GS_WAITING \<and>
   moves (gameData (heap (token_send 5 ''sA'' (Some (''R1'', 0, 2, 7)) ex_waiting) 0)) =
     [\<lparr>m_peerId = 0, m_tokenId = 2, m_tokenValue = 7, m_timestamp = 5\<rparr>] \<and>
   pending (token_send 5 ''sA'' (Some (''R1'', 0, 2, 7)) ex_waiting) =
     [\<lparr>t_id = 1, delay = 30000, cb = TurnTimeout 0\<rparr>] \<and>
   outbox (token_send 5 ''sA'' (Some (''R1'', 0, 2, 7)) ex_waiting) =
     [(ToRoomExcept ''R1'' ''sA'', ''token_recieved'', PToken 0 2 7 0)] \<and>
   dice_send ''sA'' (Some (''R9'', 0, 6)) ex_waiting = ex_waiting"
  using dice_token_any_status [of ex_waiting "''R1''" 0 "''sA''" 0 0 5 2 7]
    dice_token_any_status [of ex_waiting "''R9''" 0 "''sA''" 0 6 5 2 7]
  by (simp add: ex_waiting_facts rooms_get_def createRoom_def Let_def)

section \<open>End of game on win_game\<close>

lemma ex_playing_facts:
  "rooms ex_playing = [(''R1'', 0)]"
  "heap ex_playing 0 =
     (createRoom ''R1'' ''A'' 100 2 1)
       \<lparr>roomStatus := GS_PLAYING,
        players := [createPlayer ''A'' ''A'' 0 ''sA'' 1, createPlayer ''B'' ''B'' 1 ''sB'' 2],
        turnTimer := Some 1\<rparr>"
  "pending ex_playing = [\<lparr>t_id = 1, delay = 30000, cb = TurnTimeout 0\<rparr>]"
  "nextTimer ex_playing = 2"
  "redisConnected ex_playing = False"
  "users ex_playing ''A'' = Some (ex_user ''A'' 900)"
  "users ex_playing ''B'' = Some (ex_user ''B'' 900)"
  "currentRoomId (sockets ex_playing ''sA'') = Some ''R1''"
  "outbox ex_playing = [(ToRoom ''R1'', ''game_start'',
      PGameStart ''R1'' 100 [(0, ''A'', ''A'', 1000, 0, 0, 1, ''Guest''),
                              (1, ''B'', ''B'', 1000, 0, 0, 1, ''Guest'')])]"
  by (simp_all add: ex_defs handler_defs prim_defs)

lemma ex_four_facts:
  "rooms ex_four = [(''R1'', 0)]"
  "roomStatus (heap ex_four 0) = GS_PLAYING"
  "players (heap ex_four 0) =
     [createPlayer ''A'' ''A'' 0 ''sA'' 1, createPlayer ''B'' ''B'' 1 ''sB'' 2,
      createPlayer ''C'' ''C'' 2 ''sC'' 3, createPlayer ''D'' ''D'' 3 ''sD'' 4]"
  by (simp_all add: ex_defs handler_defs prim_defs)

text \<open>
  Claim C6. A \<open>win_game\<close> event for a room of the registry that is \<open>playing\<close> marks the
  named player \<open>WIN\<close> (when the peer id is a position of the roster) and relays the win.
  If at most one player is then \<open>PLAYING\<close>, the room becomes \<open>finished\<close>, its turn timer is
  cancelled and its handle cleared, the results computed from the updated roster are
  credited to the user store and sent to the room as \<open>game_over\<close>, and a timer of 10
  seconds is scheduled whose callback deletes the room id from the registry. If more
  than one player is \<open>PLAYING\<close>, the room stays \<open>playing\<close> with its timer, and nothing is
  settled.
\<close>

theorem win_game_finishes_room:
  assumes reg: "rooms_get st rid = Some a"
    and playing: "roomStatus (heap st a) = GS_PLAYING"
  shows "(let st' = win_game now sid (Some (rid, peer, rank)) st;
              ps = players (heap st a);
              ps' = (if peer < length ps then ps[peer := (ps ! peer)\<lparr>status := WIN\<rparr>] else ps);
              results = calculateGameResults ((heap st a)\<lparr>players := ps'\<rparr>)
          in (playingCount ps' \<le> 1 \<longrightarrow>
                players (heap st' a) = ps' \<and> roomStatus (heap st' a) = GS_FINISHED \<and>
                turnTimer (heap st' a) = None \<and>
                roomId (heap st' a) = roomId (heap st a) \<and>
                betAmount (heap st' a) = betAmount (heap st a) \<and>
                maxPlayers (heap st' a) = maxPlayers (heap st a) \<and>
                pending st' = filter (\<lambda>x. Some (t_id x) \<noteq> turnTimer (heap st a)) (pending st) @
                    [\<lparr>t_id = nextTimer st, delay = 10000, cb = RoomCleanup rid\<rparr>] \<and>
                users st' = users (updatePlayerCoinsAndStats now results st) \<and>
                redisUsers st' = redisUsers (updatePlayerCoinsAndStats now results st) \<and>
                leaderboard st' = leaderboard (updatePlayerCoinsAndStats now results st) \<and>
                outbox st' = outbox st @
                    [(ToRoomExcept rid sid, ''win_game'', PPeer peer),
                     (ToRoom rid, ''game_over'', PResults results)] \<and>
                rooms st' = rooms st \<and>
                rooms_get (runCallback now' (RoomCleanup rid) st') rid = None) \<and>
             (playingCount ps' > 1 \<longrightarrow>
                heap st' = (heap st)(a := (heap st a)\<lparr>players := ps'\<rparr>) \<and>
                roomStatus (heap st' a) = GS_PLAYING \<and>
                pending st' = pending st \<and> users st' = users st \<and>
                redisUsers st' = redisUsers st \<and> rooms st' = rooms st \<and>
                outbox st' = outbox st @ [(ToRoomExcept rid sid, ''win_game'', PPeer peer)]))"
proof (cases "turnTimer (heap st a)")
  case None
  with assms show ?thesis
    by (simp add: win_game_def Let_def emit_def updPlayer_def updRoom_def
        clearTurnTimer_def clearTimeout_def setTimeout_def runCallback_def rooms_get_def
        rooms_get_delete settle_heap settle_pending settle_outbox settle_frame)
next
  case (Some t)
  with assms show ?thesis
    by (simp add: win_game_def Let_def emit_def updPlayer_def updRoom_def
        clearTurnTimer_def clearTimeout_def setTimeout_def runCallback_def rooms_get_def
        rooms_get_delete settle_heap settle_pending settle_outbox settle_frame)
qed

text \<open>
  The theorem at \<open>ex_playing\<close>, where A wins the 2-player game at bet 100 (A is paid 200,
  the room is finished and its removal is scheduled), and at \<open>ex_four\<close>, where after the
  win of A three players are still playing.
\<close>

theorem win_game_finishes_room_witness:
  "rooms_get ex_playing ''R1'' = Some 0 \<and> roomStatus (heap ex_playing 0) = GS_PLAYING \<and>
   roomStatus (heap (win_game 3 ''sA'' (Some (''R1'', 0, 1)) ex_playing) 0) = GS_FINISHED \<and>
   turnTimer (heap (win_game 3 ''sA'' (Some (''R1'', 0, 1)) ex_playing) 0) = None \<and>
   pending (win_game 3 ''sA'' (Some (''R1'', 0, 1)) ex_playing) =
     [\<lparr>t_id = 2, delay = 10000, cb = RoomCleanup ''R1''\<rparr>] \<and>
   last (outbox (win_game 3 ''sA'' (Some (''R1'', 0, 1)) ex_playing)) =
     (ToRoom ''R1'', ''game_over'',
      PResults [\<lparr>user_name = ''A'', user_id = ''A'', winning_coin = 200, player_rank = 1,
                 player_status = WIN\<rparr>,
                \<lparr>user_name = ''B'', user_id = ''B'', winning_coin = 0, player_rank = 2,
                 player_status = PLAYING\<rparr>]) \<and>
   map_option coins (users (win_game 3 ''sA'' (Some (''R1'', 0, 1)) ex_playing) ''A'') = Some 1100 \<and>
   map_option coins (users (win_game 3 ''sA'' (Some (''R1'', 0, 1)) ex_playing) ''B'') = Some 900 \<and>
   roomStatus (heap (win_game 5 ''sA'' (Some (''R1'', 0, 1)) ex_four) 0) = GS_PLAYING \<and>
   map status (players (heap (win_game 5 ''sA'' (Some (''R1'', 0, 1)) ex_four) 0)) =
     [WIN, PLAYING, PLAYING, PLAYING]"
  using win_game_finishes_room [of ex_playing "''R1''" 0 3 "''sA''" 0 1 0]
    win_game_finishes_room [of ex_four "''R1''" 0 5 "''sA''" 0 1 0]
  by (simp add: ex_playing_facts ex_four_facts rooms_get_def Let_def playingCount_def
      createRoom_def createPlayer_def ex_user_def calculateGameResults_def resultOf_def
      cmpStatus_def creditUser_def getUserAny_def)

section \<open>Third strike of the turn timer\<close>

lemma playing_one_found:
  "playingCount ps = 1 \<Longrightarrow> \<exists>w. findIndex (\<lambda>p. status p = PLAYING) ps = Some w"
proof (cases "findIndex (\<lambda>p. status p = PLAYING) ps")
  case None
  assume "playingCount ps = 1"
  moreover from None have "filter (\<lambda>p. status p = PLAYING) ps = []"
    by (simp add: findIndex_None filter_empty_conv)
  ultimately show ?thesis by (simp add: playingCount_def)
next
  case (Some w)
  then show ?thesis by blast
qed

lemma turnChange_players: "players (heap (turnChange now a s) a) = players (heap s a)"
  by (simp add: turnChange_def startTurnTimer_def settle_def clearTurnTimer_def clearTimeout_def
      setTimeout_def emit_def updRoom_def Let_def settle_frame split: option.splits prod.splits)

lemma turnChange_outbox: "\<exists>rest. outbox (turnChange now a s) = outbox s @ rest"
  by (simp add: turnChange_def startTurnTimer_def settle_def clearTurnTimer_def clearTimeout_def
      setTimeout_def emit_def updRoom_def Let_def settle_frame split: option.splits prod.splits)

text \<open>
  The callback once the current player is \<open>PLAYING\<close> and the incremented counter is at
  least 3: what is left is the choice between auto-win, immediate settlement and turn
  change, on the state \<open>st4\<close> in which the player is marked and both messages are out.
\<close>

lemma turnTimeout_unfold:
  assumes cur: "currentTurn (heap st a) < length (players (heap st a))"
    and pl: "status (players (heap st a) ! currentTurn (heap st a)) = PLAYING"
    and strikes: "numoftimeout (players (heap st a) ! currentTurn (heap st a)) + 1 \<ge> 3"
  shows "turnTimeout now a st =
     (let r = heap st a; i = currentTurn r; p = players r ! i; rid = roomId r;
          ps1 = (players r)[i := p\<lparr>numoftimeout := numoftimeout p + 1, status := TIMEOUT\<rparr>];
          pre = outbox st @
                [(ToRoom rid, ''user_timeout_counter'', PTimeoutCounter (peerId p) (numoftimeout p + 1)),
                 (ToRoom rid, ''user_timeout'', PPeer (peerId p))];
          st4 = st\<lparr>heap := (heap st)(a := r\<lparr>players := ps1\<rparr>), outbox := pre\<rparr>
      in if playingCount ps1 = 1 then
           (case findIndex (\<lambda>p. status p = PLAYING) ps1 of
              Some w \<Rightarrow>
                snd (setTimeout (DelayedSettle a) 2000
                  (updRoom a (\<lambda>r. r\<lparr>roomStatus := GS_FINISHED\<rparr>)
                    (clearTurnTimer a
                      (emit (ToRoom rid) ''win_game'' (PPeer (peerId (ps1 ! w)))
                        (updPlayer a w (\<lambda>p. p\<lparr>status := WIN\<rparr>) st4)))))
            | None \<Rightarrow> turnChange now a st4)
         else if playingCount ps1 = 0 then settle now a (clearTurnTimer a st4)
         else turnChange now a st4)"
  using cur pl strikes
  by (simp add: turnTimeout_def Let_def emit_def updPlayer_def updRoom_def peerId_status_update
      cong: option.case_cong)

text \<open>
  Claim C5. The turn timer fires while the current player is \<open>PLAYING\<close> and this is at
  least the third strike of that player. Then the player is marked \<open>TIMEOUT\<close> and the
  room is sent \<open>user_timeout_counter\<close> and \<open>user_timeout\<close>. If exactly one player is then
  still \<open>PLAYING\<close>, that player is marked \<open>WIN\<close>, \<open>win_game\<close> is sent, the room is finished
  with its turn timer cancelled, nothing is settled yet, and a timer of 2 seconds is
  scheduled; when that timer fires, the results are credited and sent as \<open>game_over\<close>. If
  no player is still \<open>PLAYING\<close>, the turn timer is cancelled and the results are credited
  and sent as \<open>game_over\<close> at once. Timer handles are fresh: every pending handle is below
  the next one to be handed out.
\<close>

theorem turnTimeout_third_strike:
  assumes cur: "currentTurn (heap st a) < length (players (heap st a))"
    and pl: "status (players (heap st a) ! currentTurn (heap st a)) = PLAYING"
    and strikes: "numoftimeout (players (heap st a) ! currentTurn (heap st a)) + 1 \<ge> 3"
    and fresh: "\<forall>x\<in>set (pending st). t_id x < nextTimer st"
  shows "(let r = heap st a; i = currentTurn r; p = players r ! i; rid = roomId r;
              ps1 = (players r)[i := p\<lparr>numoftimeout := numoftimeout p + 1, status := TIMEOUT\<rparr>];
              pre = outbox st @
                [(ToRoom rid, ''user_timeout_counter'', PTimeoutCounter (peerId p) (numoftimeout p + 1)),
                 (ToRoom rid, ''user_timeout'', PPeer (peerId p))];
              st' = turnTimeout now a st
          in status (players (heap st' a) ! i) = TIMEOUT \<and>
             (\<exists>rest. outbox st' = pre @ rest) \<and>
             (playingCount ps1 = 1 \<longrightarrow>
                (\<exists>w. findIndex (\<lambda>q. status q = PLAYING) ps1 = Some w \<and>
                   players (heap st' a) = ps1[w := (ps1 ! w)\<lparr>status := WIN\<rparr>] \<and>
                   roomStatus (heap st' a) = GS_FINISHED \<and>
                   turnTimer (heap st' a) = None \<and>
                   betAmount (heap st' a) = betAmount r \<and> maxPlayers (heap st' a) = maxPlayers r \<and>
                   outbox st' = pre @ [(ToRoom rid, ''win_game'', PPeer (peerId (ps1 ! w)))] \<and>
                   users st' = users st \<and> redisUsers st' = redisUsers st \<and>
                   pending st' = filter (\<lambda>x. Some (t_id x) \<noteq> turnTimer r) (pending st) @
                       [\<lparr>t_id = nextTimer st, delay = 2000, cb = DelayedSettle a\<rparr>] \<and>
                   (let st'' = fire now2 (nextTimer st) st';
                        results = calculateGameResults (heap st' a)
                    in outbox st'' = outbox st' @ [(ToRoom rid, ''game_over'', PResults results)] \<and>
                       users st'' = users (updatePlayerCoinsAndStats now2 results st) \<and>
                       redisUsers st'' = redisUsers (updatePlayerCoinsAndStats now2 results st) \<and>
                       leaderboard st'' = leaderboard (updatePlayerCoinsAndStats now2 results st)))) \<and>
             (playingCount ps1 = 0 \<longrightarrow>
                (let results = calculateGameResults (r\<lparr>players := ps1\<rparr>)
                 in outbox st' = pre @ [(ToRoom rid, ''game_over'', PResults results)] \<and>
                    users st' = users (updatePlayerCoinsAndStats now results st) \<and>
                    redisUsers st' = redisUsers (updatePlayerCoinsAndStats now results st) \<and>
                    leaderboard st' = leaderboard (updatePlayerCoinsAndStats now results st) \<and>
                    players (heap st' a) = ps1 \<and>
                    turnTimer (heap st' a) = None \<and>
                    pending st' = filter (\<lambda>x. Some (t_id x) \<noteq> turnTimer r) (pending st))))"
proof -
  let ?r = "heap st a"
  let ?i = "currentTurn ?r"
  let ?p = "players ?r ! ?i"
  let ?ps1 = "(players ?r)[?i := ?p\<lparr>numoftimeout := numoftimeout ?p + 1, status := TIMEOUT\<rparr>]"
  let ?pre = "outbox st @
      [(ToRoom (roomId ?r), ''user_timeout_counter'', PTimeoutCounter (peerId ?p) (numoftimeout ?p + 1)),
       (ToRoom (roomId ?r), ''user_timeout'', PPeer (peerId ?p))]"
  let ?st4 = "st\<lparr>heap := (heap st)(a := ?r\<lparr>players := ?ps1\<rparr>), outbox := ?pre\<rparr>"
  let ?q = "filter (\<lambda>x. Some (t_id x) \<noteq> turnTimer ?r) (pending st)"
  note unf = turnTimeout_unfold [OF cur pl strikes, of now, unfolded Let_def]
  have ps1_i: "status (?ps1 ! ?i) = TIMEOUT" using cur by simp
  have qfresh: "\<forall>x\<in>set ?q. t_id x \<noteq> nextTimer st" using fresh by auto
  consider (one) "playingCount ?ps1 = 1" | (zero) "playingCount ?ps1 = 0"
    | (more) "playingCount ?ps1 \<noteq> 1 \<and> playingCount ?ps1 \<noteq> 0"
    by blast
  then show ?thesis
  proof cases
    case one
    from playing_one_found [OF one] obtain w
      where w: "findIndex (\<lambda>q. status q = PLAYING) ?ps1 = Some w" by blast
    from findIndex_Some [OF w] have wlt: "w < length ?ps1" and ws: "status (?ps1 ! w) = PLAYING"
      by blast+
    from ws ps1_i have wi: "w \<noteq> ?i" by auto
    let ?fin = "snd (setTimeout (DelayedSettle a) 2000
                  (updRoom a (\<lambda>r. r\<lparr>roomStatus := GS_FINISHED\<rparr>)
                    (clearTurnTimer a
                      (emit (ToRoom (roomId ?r)) ''win_game'' (PPeer (peerId (?ps1 ! w)))
                        (updPlayer a w (\<lambda>p. p\<lparr>status := WIN\<rparr>) ?st4)))))"
    have eq: "turnTimeout now a st = ?fin" using unf one w by simp
    have pend: "pending ?fin = ?q @ [\<lparr>t_id = nextTimer st, delay = 2000, cb = DelayedSettle a\<rparr>]"
      by (cases "turnTimer ?r") (simp_all add: prim_defs)
    have fire_eq: "fire now2 (nextTimer st) ?fin = settle now2 a (?fin\<lparr>pending := ?q\<rparr>)"
      using fire_fresh [OF qfresh pend, of now2] by (simp add: runCallback_def)
    have fin_facts: "players (heap ?fin a) = ?ps1[w := (?ps1 ! w)\<lparr>status := WIN\<rparr>]"
      "roomStatus (heap ?fin a) = GS_FINISHED" "turnTimer (heap ?fin a) = None"
      "outbox ?fin = ?pre @ [(ToRoom (roomId ?r), ''win_game'', PPeer (peerId (?ps1 ! w)))]"
      "users ?fin = users st" "redisUsers ?fin = redisUsers st" "roomId (heap ?fin a) = roomId ?r"
      "betAmount (heap ?fin a) = betAmount ?r" "maxPlayers (heap ?fin a) = maxPlayers ?r"
      by (cases "turnTimer ?r"; simp add: prim_defs)+
    have st_i: "status (players (heap ?fin a) ! ?i) = TIMEOUT"
      by (subst fin_facts(1)) (use wi cur in simp)
    have settle_facts:
      "outbox (settle now2 a (?fin\<lparr>pending := ?q\<rparr>)) =
         outbox ?fin @ [(ToRoom (roomId ?r), ''game_over'', PResults (calculateGameResults (heap ?fin a)))]"
      "users (settle now2 a (?fin\<lparr>pending := ?q\<rparr>)) =
         users (updatePlayerCoinsAndStats now2 (calculateGameResults (heap ?fin a)) st)"
      "redisUsers (settle now2 a (?fin\<lparr>pending := ?q\<rparr>)) =
         redisUsers (updatePlayerCoinsAndStats now2 (calculateGameResults (heap ?fin a)) st)"
      "leaderboard (settle now2 a (?fin\<lparr>pending := ?q\<rparr>)) =
         leaderboard (updatePlayerCoinsAndStats now2 (calculateGameResults (heap ?fin a)) st)"
      by (cases "turnTimer ?r";
          simp add: prim_defs settle_heap settle_pending settle_outbox settle_nextTimer settle_frame)+
    show ?thesis
      unfolding Let_def eq fire_eq
      using one w st_i fin_facts settle_facts pend by simp
  next
    case zero
    have eq: "turnTimeout now a st = settle now a (clearTurnTimer a ?st4)" using unf zero by simp
    have facts:
      "outbox (settle now a (clearTurnTimer a ?st4)) =
         ?pre @ [(ToRoom (roomId ?r), ''game_over'', PResults (calculateGameResults (?r\<lparr>players := ?ps1\<rparr>)))]"
      "users (settle now a (clearTurnTimer a ?st4)) =
         users (updatePlayerCoinsAndStats now (calculateGameResults (?r\<lparr>players := ?ps1\<rparr>)) st)"
      "redisUsers (settle now a (clearTurnTimer a ?st4)) =
         redisUsers (updatePlayerCoinsAndStats now (calculateGameResults (?r\<lparr>players := ?ps1\<rparr>)) st)"
      "leaderboard (settle now a (clearTurnTimer a ?st4)) =
         leaderboard (updatePlayerCoinsAndStats now (calculateGameResults (?r\<lparr>players := ?ps1\<rparr>)) st)"
      "players (heap (settle now a (clearTurnTimer a ?st4)) a) = ?ps1"
      "turnTimer (heap (settle now a (clearTurnTimer a ?st4)) a) = None"
      "pending (settle now a (clearTurnTimer a ?st4)) = ?q"
      by (cases "turnTimer ?r";
          simp add: prim_defs settle_heap settle_pending settle_outbox settle_frame)+
    show ?thesis
      unfolding Let_def eq
      using zero facts ps1_i by simp
  next
    case more
    have eq: "turnTimeout now a st = turnChange now a ?st4" using unf more by simp
    have "players (heap (turnChange now a ?st4) a) = ?ps1"
      by (simp add: turnChange_players)
    moreover obtain rest where "outbox (turnChange now a ?st4) = ?pre @ rest"
      using turnChange_outbox [of now a ?st4] by auto
    ultimately show ?thesis
      unfolding Let_def eq
      using more ps1_i by simp
  qed
qed

lemma ex_strike2_facts:
  "heap ex_strike2 0 =
     (createRoom ''R1'' ''A'' 100 2 1)
       \<lparr>roomStatus := GS_PLAYING,
        players := [(createPlayer ''A'' ''A'' 0 ''sA'' 1)\<lparr>numoftimeout := 2\<rparr>,
                    createPlayer ''B'' ''B'' 1 ''sB'' 2],
        turnTimer := Some 1\<rparr>"
  "pending ex_strike2 = [\<lparr>t_id = 1, delay = 30000, cb = TurnTimeout 0\<rparr>]"
  "nextTimer ex_strike2 = 2"
  "redisConnected ex_strike2 = False"
  "users ex_strike2 ''A'' = Some (ex_user ''A'' 900)"
  "users ex_strike2 ''B'' = Some (ex_user ''B'' 900)"
  by (simp_all add: ex_strike2_def ex_playing_facts updPlayer_def updRoom_def createRoom_def)

lemma ex_last_strike_facts:
  "heap ex_last_strike 0 =
     (createRoom ''R1'' ''A'' 100 2 1)
       \<lparr>roomStatus := GS_PLAYING,
        players := [(createPlayer ''A'' ''A'' 0 ''sA'' 1)\<lparr>numoftimeout := 2\<rparr>,
                    (createPlayer ''B'' ''B'' 1 ''sB'' 2)\<lparr>status := TIMEOUT\<rparr>],
        turnTimer := Some 4\<rparr>"
  "pending ex_last_strike = [\<lparr>t_id = 4, delay = 30000, cb = TurnTimeout 0\<rparr>]"
  "nextTimer ex_last_strike = 5"
  "redisConnected ex_last_strike = False"
  "users ex_last_strike ''A'' = Some (ex_user ''A'' 900)"
  "users ex_last_strike ''B'' = Some (ex_user ''B'' 900)"
  by (simp_all add: ex_last_strike_def run_defs)

text \<open>
  The theorem at \<open>ex_strike2\<close>, where the third strike of A leaves B as the only player:
  B is marked \<open>WIN\<close>, and the timer of 2 seconds (handle 2) pays B 200. And at
  \<open>ex_last_strike\<close>, where B has timed out before: the third strike of A settles the game
  at once, with nothing to pay.
\<close>

theorem turnTimeout_third_strike_witness:
  "numoftimeout (players (heap ex_strike2 0) ! currentTurn (heap ex_strike2 0)) = 2 \<and>
   map status (players (heap (turnTimeout 9 0 ex_strike2) 0)) = [TIMEOUT, WIN] \<and>
   roomStatus (heap (turnTimeout 9 0 ex_strike2) 0) = GS_FINISHED \<and>
   pending (turnTimeout 9 0 ex_strike2) = [\<lparr>t_id = 2, delay = 2000, cb = DelayedSettle 0\<rparr>] \<and>
   outbox (turnTimeout 9 0 ex_strike2) = outbox ex_strike2 @
     [(ToRoom ''R1'', ''user_timeout_counter'', PTimeoutCounter 0 3),
      (ToRoom ''R1'', ''user_timeout'', PPeer 0),
      (ToRoom ''R1'', ''win_game'', PPeer 1)] \<and>
   map_option coins (users (turnTimeout 9 0 ex_strike2) ''B'') = Some 900 \<and>
   outbox (fire 11 2 (turnTimeout 9 0 ex_strike2)) = outbox (turnTimeout 9 0 ex_strike2) @
     [(ToRoom ''R1'', ''game_over'',
       PResults [\<lparr>user_name = ''B'', user_id = ''B'', winning_coin = 200, player_rank = 1,
                  player_status = WIN\<rparr>,
                 \<lparr>user_name = ''A'', user_id = ''A'', winning_coin = 0, player_rank = 2,
                  player_status = TIMEOUT\<rparr>])] \<and>
   map_option coins (users (fire 11 2 (turnTimeout 9 0 ex_strike2)) ''B'') = Some 1100 \<and>
   map status (players (heap (turnTimeout 6 0 ex_last_strike) 0)) = [TIMEOUT, TIMEOUT] \<and>
   pending (turnTimeout 6 0 ex_last_strike) = [] \<and>
   outbox (turnTimeout 6 0 ex_last_strike) = outbox ex_last_strike @
     [(ToRoom ''R1'', ''user_timeout_counter'', PTimeoutCounter 0 3),
      (ToRoom ''R1'', ''user_timeout'', PPeer 0),
      (ToRoom ''R1'', ''game_over'',
       PResults [\<lparr>user_name = ''A'', user_id = ''A'', winning_coin = 0, player_rank = 1,
                  player_status = TIMEOUT\<rparr>,
                 \<lparr>user_name = ''B'', user_id = ''B'', winning_coin = 0, player_rank = 2,
                  player_status = TIMEOUT\<rparr>])] \<and>
   map_option coins (users (turnTimeout 6 0 ex_last_strike) ''A'') = Some 900"
  using turnTimeout_third_strike [of ex_strike2 0 9 11]
    turnTimeout_third_strike [of ex_last_strike 0 6 0]
  by (simp add: ex_strike2_facts ex_last_strike_facts Let_def playingCount_def createRoom_def
      createPlayer_def ex_user_def calculateGameResults_def resultOf_def cmpStatus_def
      creditUser_def getUserAny_def)

section \<open>Disconnect grace\<close>




section \<open>Coin deduction on join\<close>

text \<open>
  \<open>request_join\<close> checks everything before it takes the bet: a refused request changes
  nothing but the outbox, and an accepted one takes the bet and seats the player.
\<close>

lemma request_join_refused:
  assumes "getUserAny st uid = None \<or> (\<exists>u. getUserAny st uid = Some u \<and> coins u < bet)"
  shows "(let st' = request_join now uuid sid (Some (uid, uname, bet, n)) st
          in users st' = users st \<and> redisUsers st' = redisUsers st \<and> heap st' = heap st \<and>
             rooms st' = rooms st \<and> pending st' = pending st \<and> sockets st' = sockets st \<and>
             length (outbox st') = length (outbox st) + 1)"
  using assms by (auto simp: request_join_def emit_def)

lemma request_join_seated:
  assumes "users st uid = Some u" and "\<not> redisConnected st" and "bet \<le> coins u"
  shows "users (request_join now uuid sid (Some (uid, uname, bet, n)) st) =
           (users st)(uid \<mapsto> u\<lparr>coins := coins u - bet\<rparr>) \<and>
         (\<exists>a. userId (last (players (heap (request_join now uuid sid (Some (uid, uname, bet, n)) st) a)))
                = uid)"
  using assms
  by (cases "findAvailableRoom_loop (heap st) (rooms st) bet n")
     (auto simp: request_join_def getUserAny_def findAvailableRoom_def newRoom_def createRoom_def
       createPlayer_def pushPlayer_def socketEnter_def startTurnTimer_def prim_defs
       split: option.splits)

text \<open>
  \<open>friend_join_room\<close> takes the bet before it tests the status of the room: in a room that
  has a free seat but is not \<open>waiting\<close>, a user with enough coins is refused, and has paid.
\<close>

lemma friend_join_room_late_refusal:
  assumes "rooms_get st code = Some a"
    and "int (length (players (heap st a))) < maxPlayers (heap st a)"
    and "users st uid = Some u" and "betAmount (heap st a) \<le> coins u"
    and "roomStatus (heap st a) \<noteq> GS_WAITING"
  shows "friend_join_room now sid (Some (uid, uname, code)) st =
     st\<lparr>users := (users st)(uid \<mapsto> u\<lparr>coins := coins u - betAmount (heap st a)\<rparr>),
        outbox := outbox st @
          [(ToSocket sid, ''friend_error_response'', PMessage ''Game already started'')]\<rparr>"
  using assms by (simp add: friend_join_room_def emit_def)

lemma ex_friend_facts:
  "rooms ex_friend = [(''ABC123'', 0)]"
  "roomStatus (heap ex_friend 0) = GS_FINISHED"
  "maxPlayers (heap ex_friend 0) = 2" "betAmount (heap ex_friend 0) = 100"
  "players (heap ex_friend 0) = [(createPlayer ''A'' ''A'' 0 ''sA'' 1)\<lparr>status := WIN\<rparr>]"
  "users ex_friend ''B'' = Some (ex_user ''B'' 1000)"
  by (simp_all add: ex_friend_def run_defs)

text \<open>
  Claim C1, at the failing input. In \<open>ex_friend\<close> the friend room \<open>ABC123\<close> (bet 100, two
  seats) is finished with one seat free, and B has 1000 coins. B sends \<open>friend_join_room\<close>
  for \<open>ABC123\<close>: the answer is \<open>friend_error_response\<close> "Game already started", the roster
  is unchanged (B is not seated), and B is left with 900 coins.
\<close>

theorem friend_join_room_refused_after_deduction:
  "rooms_get ex_friend ''ABC123'' = Some 0 \<and>
   roomStatus (heap ex_friend 0) = GS_FINISHED \<and>
   int (length (players (heap ex_friend 0))) < maxPlayers (heap ex_friend 0) \<and>
   betAmount (heap ex_friend 0) = 100 \<and>
   map_option coins (users ex_friend ''B'') = Some 1000 \<and>
   last (outbox (friend_join_room 3 ''sB'' (Some (''B'', ''B'', ''ABC123'')) ex_friend)) =
     (ToSocket ''sB'', ''friend_error_response'', PMessage ''Game already started'') \<and>
   players (heap (friend_join_room 3 ''sB'' (Some (''B'', ''B'', ''ABC123'')) ex_friend) 0) =
     players (heap ex_friend 0) \<and>
   map userId (players (heap (friend_join_room 3 ''sB'' (Some (''B'', ''B'', ''ABC123'')) ex_friend) 0)) =
     [''A''] \<and>
   map_option coins (users (friend_join_room 3 ''sB'' (Some (''B'', ''B'', ''ABC123'')) ex_friend) ''B'') =
     Some 900"
  by (simp add: ex_friend_facts rooms_get_def friend_join_room_def emit_def createPlayer_def
      ex_user_def)

end
